theory Spec2Isabelle
  imports Complex_Main "HOL-Library.Sublist"
begin

section \<open>Data model (src/types.ts)\<close>

datatype StudyType =
    rct
  | cluster_rct
  | quasi_experimental_did
  | quasi_experimental_rdd
  | quasi_experimental_iv
  | quasi_experimental_matching
  | quasi_experimental_synthetic_control
  | quasi_experimental_event_study
  | observational_cross_sectional
  | observational_cohort
  | observational_case_control
  | qualitative
  | mixed_methods
  | modeling_simulation
  | systematic_review
  | meta_analysis
  | unknown

datatype CausalMethod =
    randomization
  | difference_in_differences
  | regression_discontinuity
  | instrumental_variables
  | propensity_score_matching
  | synthetic_control
  | event_study
  | fixed_effects
  | selection_on_observables
  | meta_analytic
  | none_method
  | unknown_method

datatype Severity = low | medium | high

datatype EvidenceGrade = Very_Strong | Strong | Moderate | Weak | Very_Weak

text \<open>
  The feature record. \<open>hasClusterDesign\<close> is not declared in the interface of
  \<^verbatim>\<open>types.ts\<close>, but the extractor writes it and the study-type rules read it, so
  it is a field here. \<open>sampleSizeNumeric\<close> is \<^verbatim>\<open>number | null\<close>; the extractor
  only ever stores \<^verbatim>\<open>Math.round\<close> of a non-negative value, hence \<open>nat option\<close>.
\<close>

record ExtractedFeatures =
  hasRandomization :: bool
  hasPlacebo :: bool
  hasControlGroup :: bool
  hasBlinding :: bool
  hasBaseline :: bool
  hasClusterDesign :: bool
  hasDifferenceInDifferences :: bool
  hasParallelTrends :: bool
  hasFixedEffects :: bool
  hasInstrumentalVariable :: bool
  hasRegressionDiscontinuity :: bool
  hasMatchingPSM :: bool
  hasSyntheticControl :: bool
  hasEventStudy :: bool
  hasPowerCalculation :: bool
  hasPreRegistration :: bool
  hasRobustnessChecks :: bool
  hasBalanceTests :: bool
  hasSensitivityAnalysis :: bool
  hasCONSORT :: bool
  hasPRISMA :: bool
  hasDataAvailability :: bool
  hasCodeAvailability :: bool
  sampleSizeText :: "string option"
  sampleSizeNumeric :: "nat option"
  hasAttritionDiscussion :: bool
  hasSpilloverDiscussion :: bool
  hasSelectionBiasDiscussion :: bool
  hasExternalValidityDiscussion :: bool
  isSystematicReview :: bool
  isMetaAnalysis :: bool
  studyCountText :: "string option"
  hasValidatedInstruments :: bool
  hasAdminData :: bool
  hasSelfReport :: bool
  hasObjectiveMeasures :: bool
  matchedKeywords :: "string list"

record RiskItem =
  risk :: string
  severity :: Severity
  reasoning :: string

section \<open>Numbers of the runtime\<close>

text \<open>
  A JavaScript number is an IEEE-754 binary64 value. A finite double is modelled by the
  rational it denotes; every arithmetic operation computes the exact rational result and
  rounds it to the nearest double, ties to the even significand (\<open>fl\<close>). Comparisons,
  \<^verbatim>\<open>Math.max\<close>, \<^verbatim>\<open>Math.min\<close> and \<^verbatim>\<open>Math.round\<close> are exact. The exponent range is
  not modelled (no overflow to infinity, no subnormals): the numbers of this program are
  zero or of a magnitude between \<open>2\<^sup>-\<^sup>7\<close> and \<open>2\<^sup>7\<close>, except for huge keyword counts,
  which are cut off by \<^verbatim>\<open>Math.min\<close> at once. The length of an array is below \<open>2\<^sup>3\<^sup>2\<close> and
  enters the arithmetic as the integer it is (\<open>of_nat\<close>).
\<close>

definition round_even :: "rat \<Rightarrow> int" where
  "round_even x =
     (let n = \<lfloor>x\<rfloor>; d = x - of_int n
      in if d < 1/2 then n else if d > 1/2 then n + 1 else if even n then n else n + 1)"

text \<open>\<open>flog2 x\<close> is the binary exponent of a positive \<open>x\<close>: \<open>2\<^sup>e \<le> x < 2\<^sup>e\<^sup>+\<^sup>1\<close>.\<close>

function flog2 :: "rat \<Rightarrow> int" where
  "flog2 x = (if x \<le> 0 then 0
              else if x \<ge> 2 then flog2 (x / 2) + 1
              else if x < 1 then flog2 (x * 2) - 1
              else 0)"
  by pat_completeness auto
termination
proof (relation "measure (\<lambda>x. nat \<lfloor>x\<rfloor> + 2 * nat \<lceil>1 / x\<rceil>)")
  show "wf (measure (\<lambda>x::rat. nat \<lfloor>x\<rfloor> + 2 * nat \<lceil>1 / x\<rceil>))" by simp
next
  fix x :: rat
  assume "\<not> x \<le> 0" and x2: "2 \<le> x"
  have a: "\<lceil>1 / x\<rceil> = 1" using x2 by (simp add: ceiling_eq_iff)
  have b: "\<lceil>1 / (x / 2)\<rceil> = 1" using x2 by (simp add: ceiling_eq_iff)
  have "x / 2 \<le> x - 1" using x2 by simp
  then have "\<lfloor>x / 2\<rfloor> \<le> \<lfloor>x - 1\<rfloor>" by (rule floor_mono)
  then have c: "\<lfloor>x / 2\<rfloor> < \<lfloor>x\<rfloor>" by simp
  have d: "0 < \<lfloor>x\<rfloor>" using x2 by simp
  show "(x / 2, x) \<in> measure (\<lambda>x. nat \<lfloor>x\<rfloor> + 2 * nat \<lceil>1 / x\<rceil>)"
    using a b c d by simp
next
  fix x :: rat
  assume x0: "\<not> x \<le> 0" and "\<not> 2 \<le> x" and x1: "x < 1"
  have f0: "\<lfloor>x\<rfloor> = 0" using x0 x1 by (simp add: floor_eq_iff)
  have f1: "\<lfloor>x * 2\<rfloor> \<le> 1" using x1 by (simp add: floor_le_iff)
  have f1': "0 \<le> \<lfloor>x * 2\<rfloor>" using x0 by simp
  have "1 < 1 / x" using x0 x1 by simp
  then have c2: "2 \<le> \<lceil>1 / x\<rceil>" by (simp add: le_ceiling_iff)
  have "1 / (x * 2) = (1 / x) / 2" by simp
  also have "\<dots> \<le> of_int \<lceil>1 / x\<rceil> / 2" by (simp add: divide_right_mono)
  also have "\<dots> \<le> of_int (\<lceil>1 / x\<rceil> - 1)" using c2 by simp
  finally have c3: "\<lceil>1 / (x * 2)\<rceil> \<le> \<lceil>1 / x\<rceil> - 1" by (rule ceiling_le)
  have "nat \<lfloor>x * 2\<rfloor> + 2 * nat \<lceil>1 / (x * 2)\<rceil> < nat \<lfloor>x\<rfloor> + 2 * nat \<lceil>1 / x\<rceil>"
    using f0 f1 f1' c2 c3 by linarith
  then show "(x * 2, x) \<in> measure (\<lambda>x. nat \<lfloor>x\<rfloor> + 2 * nat \<lceil>1 / x\<rceil>)"
    by simp
qed

declare flog2.simps [simp del]

text \<open>Rounding to 53 significant bits: the unit in the last place is \<open>2\<^sup>e\<^sup>-\<^sup>5\<^sup>2\<close>.\<close>

definition fl :: "rat \<Rightarrow> rat" where
  "fl x = (if x = 0 then 0
           else let u = 2 powi (flog2 \<bar>x\<bar> - 52)
                in of_int (round_even (x / u)) * u)"

text \<open>A decimal literal of the source denotes the double nearest to it.\<close>

definition lit :: "rat \<Rightarrow> rat" where
  "lit x = fl x"

definition jsAdd :: "rat \<Rightarrow> rat \<Rightarrow> rat" where
  "jsAdd a b = fl (a + b)"

definition jsSub :: "rat \<Rightarrow> rat \<Rightarrow> rat" where
  "jsSub a b = fl (a - b)"

definition jsMul :: "rat \<Rightarrow> rat \<Rightarrow> rat" where
  "jsMul a b = fl (a * b)"

definition jsDiv :: "rat \<Rightarrow> rat \<Rightarrow> rat" where
  "jsDiv a b = fl (a / b)"

text \<open>\<^verbatim>\<open>Math.round\<close>: the nearest integer, a tie going up.\<close>

definition mathRound :: "rat \<Rightarrow> rat" where
  "mathRound x = of_int \<lfloor>x + 1/2\<rfloor>"

text \<open>
  Two operations print a number: the conversion of a number to a string inside a template
  literal, and \<^verbatim>\<open>toLocaleString\<close>. What they print is fixed by the runtime and its locale;
  both are parameters here, and what is proved holds for any choice of them.
\<close>

record NumberFormat =
  numberToString :: "rat \<Rightarrow> string"
  toLocaleString :: "nat \<Rightarrow> string"

section \<open>Strings of the runtime\<close>

text \<open>
  A string is a list of 8-bit characters. \<^verbatim>\<open>Array.prototype.join\<close>, the replacement of
  every underscore by a space (\<^verbatim>\<open>replace(/_/g, ' ')\<close>), and \<^verbatim>\<open>toLowerCase\<close>, which is
  modelled on the ASCII letters: the program applies it to the names of risks, and the
  names of the catalogue are ASCII.
\<close>

fun join :: "string \<Rightarrow> string list \<Rightarrow> string" where
  "join sep [] = []"
| "join sep [x] = x"
| "join sep (x # y # ys) = x @ sep @ join sep (y # ys)"

definition replaceUnderscores :: "string \<Rightarrow> string" where
  "replaceUnderscores s = map (\<lambda>c. if c = CHR ''_'' then CHR '' '' else c) s"

definition lowerChar :: "char \<Rightarrow> char" where
  "lowerChar c = (let n = (of_char c :: nat) in if 65 \<le> n \<and> n \<le> 90 then char_of (n + 32) else c)"

definition toLowerCase :: "string \<Rightarrow> string" where
  "toLowerCase s = map lowerChar s"

section \<open>Study-type and causal-method detection (rubric/studyTypes.ts)\<close>

record StudyTypeRule =
  type :: StudyType
  priority :: int
  check :: "ExtractedFeatures \<Rightarrow> bool"

definition STUDY_TYPE_RULES :: "StudyTypeRule list" where
  "STUDY_TYPE_RULES = [
     \<lparr> type = meta_analysis, priority = 100, check = (\<lambda>f. isMetaAnalysis f) \<rparr>,
     \<lparr> type = systematic_review, priority = 95,
       check = (\<lambda>f. isSystematicReview f \<and> \<not> isMetaAnalysis f) \<rparr>,
     \<lparr> type = cluster_rct, priority = 90,
       check = (\<lambda>f. hasRandomization f \<and> hasControlGroup f \<and> hasClusterDesign f \<and>
                    \<not> hasInstrumentalVariable f \<and> \<not> hasRegressionDiscontinuity f \<and>
                    \<not> hasDifferenceInDifferences f \<and> \<not> hasSyntheticControl f) \<rparr>,
     \<lparr> type = rct, priority = 85,
       check = (\<lambda>f. hasRandomization f \<and> (hasControlGroup f \<or> hasPlacebo f) \<and>
                    \<not> hasInstrumentalVariable f \<and> \<not> hasRegressionDiscontinuity f \<and>
                    \<not> hasDifferenceInDifferences f \<and> \<not> hasSyntheticControl f) \<rparr>,
     \<lparr> type = quasi_experimental_synthetic_control, priority = 80,
       check = (\<lambda>f. hasSyntheticControl f) \<rparr>,
     \<lparr> type = quasi_experimental_rdd, priority = 75,
       check = (\<lambda>f. hasRegressionDiscontinuity f) \<rparr>,
     \<lparr> type = quasi_experimental_iv, priority = 70,
       check = (\<lambda>f. hasInstrumentalVariable f) \<rparr>,
     \<lparr> type = quasi_experimental_event_study, priority = 65,
       check = (\<lambda>f. hasEventStudy f \<and> \<not> hasDifferenceInDifferences f) \<rparr>,
     \<lparr> type = quasi_experimental_did, priority = 60,
       check = (\<lambda>f. hasDifferenceInDifferences f \<or> (hasFixedEffects f \<and> hasParallelTrends f)) \<rparr>,
     \<lparr> type = quasi_experimental_matching, priority = 55,
       check = (\<lambda>f. hasMatchingPSM f \<and> \<not> hasRandomization f) \<rparr>,
     \<lparr> type = observational_cohort, priority = 40,
       check = (\<lambda>f. hasBaseline f \<and> \<not> hasRandomization f \<and> \<not> hasDifferenceInDifferences f \<and>
                    \<not> hasInstrumentalVariable f \<and> \<not> hasRegressionDiscontinuity f) \<rparr>,
     \<lparr> type = observational_cross_sectional, priority = 30,
       check = (\<lambda>f. \<not> hasRandomization f \<and> \<not> hasDifferenceInDifferences f \<and>
                    \<not> hasInstrumentalVariable f \<and> \<not> hasRegressionDiscontinuity f \<and>
                    \<not> hasBaseline f \<and> (sampleSizeNumeric f \<noteq> None \<or> hasSelfReport f)) \<rparr>
   ]"

text \<open>
  \<^verbatim>\<open>[...STUDY_TYPE_RULES].sort((a, b) => b.priority - a.priority)\<close>: the built-in sort
  is stable, and so is \<^const>\<open>sort_key\<close>; descending priority is ascending negated
  priority.
\<close>

definition sortedRules :: "StudyTypeRule list" where
  "sortedRules = sort_key (\<lambda>r. - priority r) STUDY_TYPE_RULES"

text \<open>The loop over the sorted rules: the first rule whose check holds decides.\<close>

fun firstMatch :: "StudyTypeRule list \<Rightarrow> ExtractedFeatures \<Rightarrow> StudyType" where
  "firstMatch [] features = unknown"
| "firstMatch (rule # rules) features =
     (if check rule features then type rule else firstMatch rules features)"

definition detectStudyType :: "ExtractedFeatures \<Rightarrow> StudyType" where
  "detectStudyType features = firstMatch sortedRules features"

definition methodMap :: "StudyType \<Rightarrow> CausalMethod option" where
  "methodMap st = (case st of
       rct \<Rightarrow> Some randomization
     | cluster_rct \<Rightarrow> Some randomization
     | quasi_experimental_did \<Rightarrow> Some difference_in_differences
     | quasi_experimental_rdd \<Rightarrow> Some regression_discontinuity
     | quasi_experimental_iv \<Rightarrow> Some instrumental_variables
     | quasi_experimental_matching \<Rightarrow> Some propensity_score_matching
     | quasi_experimental_synthetic_control \<Rightarrow> Some synthetic_control
     | quasi_experimental_event_study \<Rightarrow> Some event_study
     | meta_analysis \<Rightarrow> Some meta_analytic
     | systematic_review \<Rightarrow> Some meta_analytic
     | _ \<Rightarrow> None)"

definition detectCausalMethod :: "ExtractedFeatures \<Rightarrow> StudyType \<Rightarrow> CausalMethod" where
  "detectCausalMethod features studyType =
     (case methodMap studyType of
        Some m \<Rightarrow> m
      | None \<Rightarrow>
          if hasFixedEffects features then fixed_effects
          else if hasMatchingPSM features then propensity_score_matching
          else if studyType = observational_cohort \<or>
                  studyType = observational_cross_sectional \<or>
                  studyType = observational_case_control
               then selection_on_observables
          else unknown_method)"

definition getCausalMethodIndicators :: "ExtractedFeatures \<Rightarrow> string list" where
  "getCausalMethodIndicators features =
     (if hasRandomization features then [''randomization mentioned''] else []) @
     (if hasControlGroup features then [''control group''] else []) @
     (if hasPlacebo features then [''placebo/sham''] else []) @
     (if hasBlinding features then [''blinding''] else []) @
     (if hasDifferenceInDifferences features then [''difference-in-differences''] else []) @
     (if hasParallelTrends features then [''parallel trends''] else []) @
     (if hasFixedEffects features then [''fixed effects''] else []) @
     (if hasInstrumentalVariable features then [''instrumental variable''] else []) @
     (if hasRegressionDiscontinuity features then [''regression discontinuity''] else []) @
     (if hasMatchingPSM features then [''matching/PSM''] else []) @
     (if hasSyntheticControl features then [''synthetic control''] else []) @
     (if hasEventStudy features then [''event study''] else [])"

section \<open>Method rubrics and causal strength (rubric/causalMethods.ts)\<close>

text \<open>
  A modifier's \<open>feature\<close> is either a key of the feature record or a predicate on it;
  the loop reads the flag for a key and applies the predicate otherwise, so both are
  predicates here.
\<close>

record StrengthModifier =
  feature :: "ExtractedFeatures \<Rightarrow> bool"
  modifier :: rat
  description :: string

record MethodAssessment =
  baseStrength :: rat
  strengthModifiers :: "StrengthModifier list"
  requiredForStrong :: "string list"
  commonWeaknesses :: "string list"

definition sampleBelow :: "nat \<Rightarrow> ExtractedFeatures \<Rightarrow> bool" where
  "sampleBelow k f = (case sampleSizeNumeric f of None \<Rightarrow> False | Some n \<Rightarrow> n < k)"

definition sampleAbove :: "nat \<Rightarrow> ExtractedFeatures \<Rightarrow> bool" where
  "sampleAbove k f = (case sampleSizeNumeric f of None \<Rightarrow> False | Some n \<Rightarrow> n > k)"

definition rubric_randomization :: MethodAssessment where
  "rubric_randomization = \<lparr>
     baseStrength = lit (45/10),
     strengthModifiers = [
       \<lparr> feature = hasBlinding, modifier = lit (3/10), description = ''Blinding present'' \<rparr>,
       \<lparr> feature = hasBalanceTests, modifier = lit (2/10), description = ''Balance tests reported'' \<rparr>,
       \<lparr> feature = hasPowerCalculation, modifier = lit (2/10), description = ''Power calculation'' \<rparr>,
       \<lparr> feature = hasAttritionDiscussion, modifier = lit (1/10), description = ''Attrition addressed'' \<rparr>,
       \<lparr> feature = hasPreRegistration, modifier = lit (2/10), description = ''Pre-registered'' \<rparr>,
       \<lparr> feature = sampleBelow 100, modifier = - lit (5/10),
         description = ''Small sample size (<100)'' \<rparr>,
       \<lparr> feature = sampleBelow 30, modifier = - lit (5/10),
         description = ''Very small sample size (<30)'' \<rparr> ],
     requiredForStrong = [''randomization'', ''control group''],
     commonWeaknesses = [''attrition bias'', ''non-compliance'', ''spillovers'', ''Hawthorne effect''] \<rparr>"

definition rubric_difference_in_differences :: MethodAssessment where
  "rubric_difference_in_differences = \<lparr>
     baseStrength = lit (35/10),
     strengthModifiers = [
       \<lparr> feature = hasParallelTrends, modifier = lit (5/10),
         description = ''Parallel trends tested/discussed'' \<rparr>,
       \<lparr> feature = hasEventStudy, modifier = lit (3/10),
         description = ''Event study/dynamic effects shown'' \<rparr>,
       \<lparr> feature = hasFixedEffects, modifier = lit (2/10), description = ''Fixed effects used'' \<rparr>,
       \<lparr> feature = hasRobustnessChecks, modifier = lit (3/10),
         description = ''Robustness checks reported'' \<rparr>,
       \<lparr> feature = hasSensitivityAnalysis, modifier = lit (2/10),
         description = ''Sensitivity analysis'' \<rparr>,
       \<lparr> feature = (\<lambda>f. \<not> hasParallelTrends f), modifier = - lit (5/10),
         description = ''No parallel trends test'' \<rparr> ],
     requiredForStrong = [''difference-in-differences design'', ''parallel trends plausibility''],
     commonWeaknesses = [''parallel trends violation'', ''anticipation effects'',
       ''composition changes'', ''treatment timing endogeneity''] \<rparr>"

definition rubric_regression_discontinuity :: MethodAssessment where
  "rubric_regression_discontinuity = \<lparr>
     baseStrength = lit (40/10),
     strengthModifiers = [
       \<lparr> feature = hasRobustnessChecks, modifier = lit (4/10),
         description = ''Bandwidth sensitivity tested'' \<rparr>,
       \<lparr> feature = hasSensitivityAnalysis, modifier = lit (3/10),
         description = ''Manipulation tests'' \<rparr>,
       \<lparr> feature = hasBalanceTests, modifier = lit (2/10),
         description = ''Continuity of covariates'' \<rparr>,
       \<lparr> feature = sampleAbove 1000, modifier = lit (2/10),
         description = ''Large sample near cutoff'' \<rparr> ],
     requiredForStrong = [''clear discontinuity'', ''running variable'', ''manipulation tests''],
     commonWeaknesses = [''manipulation of running variable'', ''bandwidth sensitivity'',
       ''local nature of estimate'', ''extrapolation concerns''] \<rparr>"

definition rubric_instrumental_variables :: MethodAssessment where
  "rubric_instrumental_variables = \<lparr>
     baseStrength = lit (30/10),
     strengthModifiers = [
       \<lparr> feature = hasRobustnessChecks, modifier = lit (4/10),
         description = ''Exclusion restriction discussed'' \<rparr>,
       \<lparr> feature = hasSensitivityAnalysis, modifier = lit (3/10),
         description = ''Weak instrument tests'' \<rparr>,
       \<lparr> feature = sampleAbove 1000, modifier = lit (3/10),
         description = ''Large sample size'' \<rparr> ],
     requiredForStrong = [''instrument relevance'', ''exclusion restriction argument'',
       ''first-stage F-stat''],
     commonWeaknesses = [''weak instruments'', ''exclusion restriction violation'',
       ''monotonicity violation'', ''LATE interpretation''] \<rparr>"

definition rubric_propensity_score_matching :: MethodAssessment where
  "rubric_propensity_score_matching = \<lparr>
     baseStrength = lit (25/10),
     strengthModifiers = [
       \<lparr> feature = hasBalanceTests, modifier = lit (4/10),
         description = ''Balance achieved post-matching'' \<rparr>,
       \<lparr> feature = hasSensitivityAnalysis, modifier = lit (4/10),
         description = ''Sensitivity to unobservables'' \<rparr>,
       \<lparr> feature = hasRobustnessChecks, modifier = lit (3/10),
         description = ''Multiple matching methods'' \<rparr> ],
     requiredForStrong = [''rich covariates'', ''balance achieved'', ''overlap/common support''],
     commonWeaknesses = [''unobserved confounding'', ''model dependence'', ''lack of overlap'',
       ''selection on unobservables''] \<rparr>"

definition rubric_synthetic_control :: MethodAssessment where
  "rubric_synthetic_control = \<lparr>
     baseStrength = lit (35/10),
     strengthModifiers = [
       \<lparr> feature = hasRobustnessChecks, modifier = lit (4/10),
         description = ''Placebo tests in space'' \<rparr>,
       \<lparr> feature = hasSensitivityAnalysis, modifier = lit (3/10),
         description = ''Leave-one-out tests'' \<rparr>,
       \<lparr> feature = (\<lambda>f. hasParallelTrends f), modifier = lit (3/10),
         description = ''Good pre-treatment fit shown'' \<rparr> ],
     requiredForStrong = [''good pre-treatment fit'', ''adequate donor pool'', ''placebo tests''],
     commonWeaknesses = [''inadequate donor pool'', ''poor pre-fit'', ''treatment anticipation'',
       ''interference''] \<rparr>"

definition rubric_event_study :: MethodAssessment where
  "rubric_event_study = \<lparr>
     baseStrength = lit (35/10),
     strengthModifiers = [
       \<lparr> feature = hasParallelTrends, modifier = lit (4/10),
         description = ''Pre-trends shown flat'' \<rparr>,
       \<lparr> feature = hasRobustnessChecks, modifier = lit (3/10),
         description = ''Robustness to specification'' \<rparr>,
       \<lparr> feature = hasFixedEffects, modifier = lit (2/10),
         description = ''Unit and time fixed effects'' \<rparr> ],
     requiredForStrong = [''no pre-trends'', ''clear treatment timing'', ''appropriate controls''],
     commonWeaknesses = [''pre-trends'', ''heterogeneous treatment timing'', ''negative weights''] \<rparr>"

definition rubric_fixed_effects :: MethodAssessment where
  "rubric_fixed_effects = \<lparr>
     baseStrength = lit (20/10),
     strengthModifiers = [
       \<lparr> feature = hasRobustnessChecks, modifier = lit (3/10),
         description = ''Robustness checks'' \<rparr>,
       \<lparr> feature = sampleAbove 500, modifier = lit (2/10),
         description = ''Reasonable sample'' \<rparr> ],
     requiredForStrong = [''within-variation argument'', ''time-varying treatment''],
     commonWeaknesses = [''time-varying unobservables'', ''reverse causality'',
       ''limited within-variation'', ''strict exogeneity''] \<rparr>"

definition rubric_selection_on_observables :: MethodAssessment where
  "rubric_selection_on_observables = \<lparr>
     baseStrength = lit (15/10),
     strengthModifiers = [
       \<lparr> feature = hasBalanceTests, modifier = lit (2/10),
         description = ''Controls for observables'' \<rparr>,
       \<lparr> feature = hasRobustnessChecks, modifier = lit (2/10),
         description = ''Specification robustness'' \<rparr>,
       \<lparr> feature = hasSensitivityAnalysis, modifier = lit (3/10),
         description = ''Sensitivity analysis'' \<rparr> ],
     requiredForStrong = [''rich controls'',
       ''theoretical justification for no unobserved confounding''],
     commonWeaknesses = [''omitted variable bias'', ''reverse causality'', ''selection bias'',
       ''confounding''] \<rparr>"

definition rubric_meta_analytic :: MethodAssessment where
  "rubric_meta_analytic = \<lparr>
     baseStrength = lit (35/10),
     strengthModifiers = [
       \<lparr> feature = hasPRISMA, modifier = lit (3/10),
         description = ''PRISMA guidelines followed'' \<rparr>,
       \<lparr> feature = hasRobustnessChecks, modifier = lit (3/10),
         description = ''Heterogeneity analysis'' \<rparr>,
       \<lparr> feature = hasSensitivityAnalysis, modifier = lit (3/10),
         description = ''Publication bias tests'' \<rparr>,
       \<lparr> feature = hasPreRegistration, modifier = lit (2/10),
         description = ''Protocol registered'' \<rparr> ],
     requiredForStrong = [''systematic search'', ''quality assessment'',
       ''heterogeneity analysis''],
     commonWeaknesses = [''publication bias'', ''heterogeneity'', ''garbage in garbage out'',
       ''quality variation''] \<rparr>"

definition rubric_none :: MethodAssessment where
  "rubric_none = \<lparr>
     baseStrength = lit (10/10),
     strengthModifiers = [],
     requiredForStrong = [],
     commonWeaknesses = [''no causal identification strategy''] \<rparr>"

definition rubric_unknown :: MethodAssessment where
  "rubric_unknown = \<lparr>
     baseStrength = lit (10/10),
     strengthModifiers = [],
     requiredForStrong = [],
     commonWeaknesses = [''unclear methodology''] \<rparr>"

definition METHOD_RUBRICS :: "CausalMethod \<Rightarrow> MethodAssessment" where
  "METHOD_RUBRICS method = (case method of
       randomization \<Rightarrow> rubric_randomization
     | difference_in_differences \<Rightarrow> rubric_difference_in_differences
     | regression_discontinuity \<Rightarrow> rubric_regression_discontinuity
     | instrumental_variables \<Rightarrow> rubric_instrumental_variables
     | propensity_score_matching \<Rightarrow> rubric_propensity_score_matching
     | synthetic_control \<Rightarrow> rubric_synthetic_control
     | event_study \<Rightarrow> rubric_event_study
     | fixed_effects \<Rightarrow> rubric_fixed_effects
     | selection_on_observables \<Rightarrow> rubric_selection_on_observables
     | meta_analytic \<Rightarrow> rubric_meta_analytic
     | none_method \<Rightarrow> rubric_none
     | unknown_method \<Rightarrow> rubric_unknown)"

text \<open>The string of each value of the type \<^verbatim>\<open>CausalMethod\<close>.\<close>

definition methodName :: "CausalMethod \<Rightarrow> string" where
  "methodName method = (case method of
       randomization \<Rightarrow> ''randomization''
     | difference_in_differences \<Rightarrow> ''difference_in_differences''
     | regression_discontinuity \<Rightarrow> ''regression_discontinuity''
     | instrumental_variables \<Rightarrow> ''instrumental_variables''
     | propensity_score_matching \<Rightarrow> ''propensity_score_matching''
     | synthetic_control \<Rightarrow> ''synthetic_control''
     | event_study \<Rightarrow> ''event_study''
     | fixed_effects \<Rightarrow> ''fixed_effects''
     | selection_on_observables \<Rightarrow> ''selection_on_observables''
     | meta_analytic \<Rightarrow> ''meta_analytic''
     | none_method \<Rightarrow> ''none''
     | unknown_method \<Rightarrow> ''unknown'')"

text \<open>The object returned by \<open>assessCausalStrength\<close>: \<^verbatim>\<open>{ score, justification }\<close>.\<close>

record CausalAssessment =
  cscore :: rat
  justification :: string

text \<open>
  The loop over the modifiers, with its two variables passed along: the running
  \<open>score\<close> and the list \<^verbatim>\<open>appliedModifiers\<close>, which receives one line per modifier that
  applies (a plus sign for a positive delta, the delta as the runtime prints it, and the
  description).
\<close>

fun modifierLoop ::
  "NumberFormat \<Rightarrow> StrengthModifier list \<Rightarrow> ExtractedFeatures \<Rightarrow> rat \<times> string list \<Rightarrow>
   rat \<times> string list" where
  "modifierLoop fmt [] features (score, appliedModifiers) = (score, appliedModifiers)"
| "modifierLoop fmt (m # ms) features (score, appliedModifiers) =
     (let applies = feature m features
      in if applies
         then modifierLoop fmt ms features
                (jsAdd score (modifier m),
                 appliedModifiers @
                   [(if modifier m > 0 then ''+'' else []) @ numberToString fmt (modifier m) @
                    '': '' @ description m])
         else modifierLoop fmt ms features (score, appliedModifiers))"

definition assessCausalStrength ::
  "NumberFormat \<Rightarrow> CausalMethod \<Rightarrow> ExtractedFeatures \<Rightarrow> CausalAssessment" where
  "assessCausalStrength fmt method features =
     (let rubric = METHOD_RUBRICS method;
          (score, appliedModifiers) =
            modifierLoop fmt (strengthModifiers rubric) features (baseStrength rubric, []);
          score = max 0 (min 5 score);
          score = jsDiv (mathRound (jsMul score 10)) 10;
          methodLabel = replaceUnderscores (methodName method);
          justificationText =
            ''Base strength for '' @ methodLabel @ '': '' @
            numberToString fmt (baseStrength rubric) @ ''/5. '';
          justificationText =
            (if length appliedModifiers > 0
             then justificationText @ ''Modifiers applied: '' @ join ''; '' appliedModifiers @ ''. ''
             else justificationText);
          justificationText =
            (if length (requiredForStrong rubric) > 0
             then justificationText @ ''Strong evidence requires: '' @
                  join '', '' (requiredForStrong rubric) @ ''.''
             else justificationText)
      in \<lparr> cscore = score, justification = justificationText \<rparr>)"

text \<open>
  The running score of that loop on its own: the score never reads the list of applied
  modifiers (lemma \<open>modifierLoop_score\<close> below).
\<close>

fun applyModifiers :: "StrengthModifier list \<Rightarrow> ExtractedFeatures \<Rightarrow> rat \<Rightarrow> rat" where
  "applyModifiers [] features score = score"
| "applyModifiers (m # ms) features score =
     (let applies = feature m features
      in if applies then applyModifiers ms features (jsAdd score (modifier m))
         else applyModifiers ms features score)"

section \<open>Threat identification (rubric/threats.ts)\<close>

text \<open>
  \<open>applicableTo = None\<close> is the source's \<^verbatim>\<open>'all'\<close>; \<open>excludedMethods = None\<close> is an
  absent optional field.
\<close>

record ThreatDefinition =
  name :: string
  applicableTo :: "StudyType list option"
  excludedMethods :: "CausalMethod list option"
  checkSeverity :: "ExtractedFeatures \<Rightarrow> StudyType \<Rightarrow> Severity option"
  reasoning_fn :: "ExtractedFeatures \<Rightarrow> string"

definition threat_selection_bias :: ThreatDefinition where
  "threat_selection_bias = \<lparr>
     name = ''Selection bias'',
     applicableTo = None,
     excludedMethods = Some [randomization],
     checkSeverity = (\<lambda>f st.
       if st = rct \<or> st = cluster_rct then None
       else if hasMatchingPSM f \<and> hasBalanceTests f then Some low
       else if hasMatchingPSM f then Some medium
       else if hasSelectionBiasDiscussion f then Some medium
       else Some high),
     reasoning_fn = (\<lambda>f.
       if hasMatchingPSM f \<and> hasBalanceTests f then
         ''Matching with balance verification partially addresses selection, but unobserved confounding remains possible.''
       else if hasMatchingPSM f then
         ''Matching attempted but balance not clearly demonstrated.''
       else if hasSelectionBiasDiscussion f then
         ''Selection bias acknowledged but not fully addressed through design.''
       else
         ''Non-random assignment without clear identification strategy raises selection concerns.'') \<rparr>"

definition threat_attrition_bias :: ThreatDefinition where
  "threat_attrition_bias = \<lparr>
     name = ''Attrition bias'',
     applicableTo = Some [rct, cluster_rct, observational_cohort],
     excludedMethods = None,
     checkSeverity = (\<lambda>f st.
       if hasAttritionDiscussion f \<and> hasSensitivityAnalysis f then Some low
       else if hasAttritionDiscussion f then Some medium
       else Some medium),
     reasoning_fn = (\<lambda>f.
       if hasAttritionDiscussion f \<and> hasSensitivityAnalysis f then
         ''Attrition discussed with bounds/sensitivity analysis.''
       else if hasAttritionDiscussion f then
         ''Attrition mentioned but robustness to differential attrition unclear.''
       else
         ''No discussion of attrition detected; potential for differential dropout.'') \<rparr>"

definition threat_parallel_trends :: ThreatDefinition where
  "threat_parallel_trends = \<lparr>
     name = ''Parallel trends violation'',
     applicableTo = Some [quasi_experimental_did, quasi_experimental_event_study],
     excludedMethods = None,
     checkSeverity = (\<lambda>f st.
       if hasParallelTrends f \<and> hasEventStudy f then Some low
       else if hasParallelTrends f then Some low
       else Some high),
     reasoning_fn = (\<lambda>f.
       if hasParallelTrends f \<and> hasEventStudy f then
         ''Parallel trends tested with event study showing pre-trends.''
       else if hasParallelTrends f then
         ''Parallel trends assumption discussed/tested.''
       else
         ''No evidence of parallel trends testing; key identification assumption untested.'') \<rparr>"

definition threat_weak_instruments :: ThreatDefinition where
  "threat_weak_instruments = \<lparr>
     name = ''Weak instruments'',
     applicableTo = Some [quasi_experimental_iv],
     excludedMethods = None,
     checkSeverity = (\<lambda>f st.
       if hasRobustnessChecks f then Some medium
       else Some high),
     reasoning_fn = (\<lambda>f.
       if hasRobustnessChecks f then
         ''Some instrument strength diagnostics may be present.''
       else
         ''Instrument strength not clearly demonstrated; risk of weak instrument bias.'') \<rparr>"

definition threat_exclusion_restriction :: ThreatDefinition where
  "threat_exclusion_restriction = \<lparr>
     name = ''Exclusion restriction violation'',
     applicableTo = Some [quasi_experimental_iv],
     excludedMethods = None,
     checkSeverity = (\<lambda>f st. Some medium),
     reasoning_fn = (\<lambda>f.
       ''Exclusion restriction is inherently untestable; relies on theoretical argument.'') \<rparr>"

definition threat_manipulation :: ThreatDefinition where
  "threat_manipulation = \<lparr>
     name = ''Running variable manipulation'',
     applicableTo = Some [quasi_experimental_rdd],
     excludedMethods = None,
     checkSeverity = (\<lambda>f st.
       if hasSensitivityAnalysis f \<or> hasRobustnessChecks f then Some low
       else Some medium),
     reasoning_fn = (\<lambda>f.
       if hasSensitivityAnalysis f \<or> hasRobustnessChecks f then
         ''Manipulation tests or density checks may be present.''
       else
         ''No clear mention of manipulation tests; sorting around cutoff is a concern.'') \<rparr>"

definition threat_spillover :: ThreatDefinition where
  "threat_spillover = \<lparr>
     name = ''Spillover/SUTVA violation'',
     applicableTo = Some [rct, cluster_rct, quasi_experimental_did],
     excludedMethods = None,
     checkSeverity = (\<lambda>f st.
       if hasSpilloverDiscussion f then Some low
       else Some medium),
     reasoning_fn = (\<lambda>f.
       if hasSpilloverDiscussion f then
         ''Spillovers acknowledged and potentially addressed.''
       else
         ''No discussion of spillovers; treatment effects may contaminate control group.'') \<rparr>"

definition threat_measurement_error :: ThreatDefinition where
  "threat_measurement_error = \<lparr>
     name = ''Measurement error'',
     applicableTo = None,
     excludedMethods = None,
     checkSeverity = (\<lambda>f st.
       if hasAdminData f \<or> hasObjectiveMeasures f then Some low
       else if hasValidatedInstruments f then Some low
       else if hasSelfReport f then Some medium
       else Some medium),
     reasoning_fn = (\<lambda>f.
       if hasAdminData f \<or> hasObjectiveMeasures f then
         ''Objective/administrative measures reduce measurement concerns.''
       else if hasValidatedInstruments f then
         ''Validated instruments used for measurement.''
       else if hasSelfReport f then
         ''Self-reported outcomes subject to recall bias and social desirability.''
       else
         ''Measurement approach unclear.'') \<rparr>"

definition threat_multiple_testing :: ThreatDefinition where
  "threat_multiple_testing = \<lparr>
     name = ''Multiple hypothesis testing'',
     applicableTo = None,
     excludedMethods = None,
     checkSeverity = (\<lambda>f st.
       if hasPreRegistration f then Some low
       else if hasRobustnessChecks f then Some medium
       else Some medium),
     reasoning_fn = (\<lambda>f.
       if hasPreRegistration f then
         ''Pre-registration reduces risk of specification searching.''
       else if hasRobustnessChecks f then
         ''Multiple specifications shown, reducing cherry-picking concerns.''
       else
         ''No pre-registration; potential for selective reporting.'') \<rparr>"

definition threat_publication_bias :: ThreatDefinition where
  "threat_publication_bias = \<lparr>
     name = ''Publication bias'',
     applicableTo = Some [systematic_review, meta_analysis],
     excludedMethods = None,
     checkSeverity = (\<lambda>f st.
       if hasSensitivityAnalysis f then Some low
       else Some medium),
     reasoning_fn = (\<lambda>f.
       if hasSensitivityAnalysis f then
         ''Publication bias tests (funnel plot, Egger, etc.) may be present.''
       else
         ''Meta-analyses vulnerable to publication bias; tests not clearly mentioned.'') \<rparr>"

text \<open>
  \<^verbatim>\<open>f.sampleSizeNumeric && f.sampleSizeNumeric > 10000\<close>: the left operand is falsy for
  \<^verbatim>\<open>null\<close> and for \<^verbatim>\<open>0\<close>.
\<close>

definition sampleAbove10000 :: "ExtractedFeatures \<Rightarrow> bool" where
  "sampleAbove10000 f =
     (case sampleSizeNumeric f of None \<Rightarrow> False | Some n \<Rightarrow> n \<noteq> 0 \<and> n > 10000)"

definition threat_generalizability :: ThreatDefinition where
  "threat_generalizability = \<lparr>
     name = ''Limited generalizability'',
     applicableTo = None,
     excludedMethods = None,
     checkSeverity = (\<lambda>f st.
       if hasExternalValidityDiscussion f then Some low
       else if sampleAbove10000 f then Some low
       else Some medium),
     reasoning_fn = (\<lambda>f.
       if hasExternalValidityDiscussion f then
         ''External validity explicitly discussed.''
       else if sampleAbove10000 f then
         ''Large sample may improve representativeness.''
       else
         ''Generalizability to other contexts unclear.'') \<rparr>"

definition threat_unobserved_confounding :: ThreatDefinition where
  "threat_unobserved_confounding = \<lparr>
     name = ''Unobserved confounding'',
     applicableTo = Some [observational_cohort, observational_cross_sectional,
                          observational_case_control, quasi_experimental_matching],
     excludedMethods = None,
     checkSeverity = (\<lambda>f st.
       if hasSensitivityAnalysis f then Some medium
       else Some high),
     reasoning_fn = (\<lambda>f.
       if hasSensitivityAnalysis f then
         ''Sensitivity analysis to unobservables conducted (e.g., Oster, Rosenbaum bounds).''
       else
         ''Observational design cannot rule out unobserved confounders.'') \<rparr>"

text \<open>The catalogue, in the order of the source's array literal.\<close>

definition THREAT_DEFINITIONS :: "ThreatDefinition list" where
  "THREAT_DEFINITIONS = [
     threat_selection_bias,
     threat_attrition_bias,
     threat_parallel_trends,
     threat_weak_instruments,
     threat_exclusion_restriction,
     threat_manipulation,
     threat_spillover,
     threat_measurement_error,
     threat_multiple_testing,
     threat_publication_bias,
     threat_generalizability,
     threat_unobserved_confounding
   ]"

text \<open>
  The \<^verbatim>\<open>for\<close> loop of \<open>identifyThreats\<close>, with the array \<open>risks\<close> passed along; each
  \<^verbatim>\<open>continue\<close> goes on with \<open>risks\<close> unchanged, \<^verbatim>\<open>push\<close> appends at the end.
\<close>

fun threatLoop ::
  "ThreatDefinition list \<Rightarrow> StudyType \<Rightarrow> CausalMethod \<Rightarrow> ExtractedFeatures \<Rightarrow>
   RiskItem list \<Rightarrow> RiskItem list" where
  "threatLoop [] studyType method features risks = risks"
| "threatLoop (threat # rest) studyType method features risks =
     (let appliesToStudy =
            (case applicableTo threat of None \<Rightarrow> True | Some sts \<Rightarrow> studyType \<in> set sts)
      in if \<not> appliesToStudy then threatLoop rest studyType method features risks
         else if (case excludedMethods threat of None \<Rightarrow> False | Some ms \<Rightarrow> method \<in> set ms)
           then threatLoop rest studyType method features risks
         else (case checkSeverity threat features studyType of
                 None \<Rightarrow> threatLoop rest studyType method features risks
               | Some sev \<Rightarrow>
                   threatLoop rest studyType method features
                     (risks @ [\<lparr> risk = name threat, severity = sev,
                                 reasoning = reasoning_fn threat features \<rparr>])))"

definition severityOrder :: "Severity \<Rightarrow> int" where
  "severityOrder s = (case s of high \<Rightarrow> 0 | medium \<Rightarrow> 1 | low \<Rightarrow> 2)"

text \<open>
  \<^verbatim>\<open>risks.sort((a, b) => severityOrder[a.severity] - severityOrder[b.severity])\<close>: a
  stable sort on the key \<open>severityOrder\<close>.
\<close>

definition identifyThreats ::
  "StudyType \<Rightarrow> CausalMethod \<Rightarrow> ExtractedFeatures \<Rightarrow> RiskItem list" where
  "identifyThreats studyType method features =
     sort_key (\<lambda>r. severityOrder (severity r))
       (threatLoop THREAT_DEFINITIONS studyType method features [])"

definition generateFollowUpQuestions ::
  "StudyType \<Rightarrow> CausalMethod \<Rightarrow> ExtractedFeatures \<Rightarrow> RiskItem list \<Rightarrow> string list" where
  "generateFollowUpQuestions studyType method features risks =
     (let questions = [];
          questions = (if sampleSizeNumeric features = None
                       then questions @ [''What is the sample size?''] else questions);
          questions = (if method = difference_in_differences \<and> \<not> hasParallelTrends features
                       then questions @ [''Is there evidence supporting the parallel trends assumption?'']
                       else questions);
          questions = (if method = instrumental_variables
                       then (questions @ [''What is the first-stage F-statistic for instrument strength?''])
                              @ [''What is the theoretical argument for the exclusion restriction?'']
                       else questions);
          questions = (if method = regression_discontinuity \<and> \<not> hasSensitivityAnalysis features
                       then (questions @ [''Were manipulation/McCrary tests conducted?''])
                              @ [''How sensitive are results to bandwidth choice?'']
                       else questions);
          questions = (if method = randomization \<and> \<not> hasAttritionDiscussion features
                       then questions @ [''What was the attrition rate and was it differential?'']
                       else questions);
          questions = (if \<not> hasPreRegistration features
                       then questions @ [''Was the analysis pre-registered?''] else questions);
          questions = (if \<not> hasRobustnessChecks features
                       then questions @ [''Were robustness checks or alternative specifications explored?'']
                       else questions);
          highRisks = filter (\<lambda>r. severity r = high) risks;
          questions = (if length highRisks > 0
                       then questions @ [''How does the study address: '' @
                              join '', '' (map (\<lambda>r. toLowerCase (risk r)) highRisks) @ ''?'']
                       else questions);
          questions = (if \<not> hasExternalValidityDiscussion features
                       then questions @ [''What population/context do these results generalize to?'']
                       else questions)
      in take 5 questions)"

section \<open>Component scores and overall grade (rubric/scoring.ts)\<close>

text \<open>
  The three score functions return an object of a score and a text or a list of texts.
  Their bodies update the variables \<^verbatim>\<open>score\<close> and \<^verbatim>\<open>notes\<close> (or \<^verbatim>\<open>signals\<close>) together
  inside each \<^verbatim>\<open>if\<close>; here the pair is \<open>(s, ns)\<close> (or \<open>(s, sg)\<close>), rebound after each
  statement.
\<close>

record ScoreNotes =
  score :: rat
  notesText :: string

record ScoreSignals =
  tscore :: rat
  signals :: "string list"

definition calculateExternalValidity :: "ExtractedFeatures \<Rightarrow> ScoreNotes" where
  "calculateExternalValidity features =
     (let s = lit (25/10);
          ns = [];
          (s, ns) =
            (case sampleSizeNumeric features of
               Some n \<Rightarrow>
                 if n \<ge> 10000 then (jsAdd s (lit (10/10)), ns @ [''Large sample size''])
                 else if n \<ge> 1000 then (jsAdd s (lit (5/10)), ns @ [''Moderate sample size''])
                 else if n < 100 then
                   (jsSub s (lit (5/10)), ns @ [''Small sample limits generalizability''])
                 else (s, ns)
             | None \<Rightarrow> (s, ns @ [''Sample size unknown'']));
          (s, ns) =
            (if hasExternalValidityDiscussion features
             then (jsAdd s (lit (5/10)), ns @ [''External validity explicitly discussed''])
             else (s, ns));
          (s, ns) =
            (if isMetaAnalysis features \<or> isSystematicReview features
             then (jsAdd s (lit (5/10)), ns @ [''Review synthesizes multiple studies/contexts''])
             else (s, ns));
          s = max 0 (min 5 s);
          s = jsDiv (mathRound (jsMul s 10)) 10
      in \<lparr> score = s,
           notesText = (if length ns > 0 then join ''; '' ns
                    else ''Limited information on generalizability'') \<rparr>)"

definition calculateMeasurementQuality :: "ExtractedFeatures \<Rightarrow> ScoreNotes" where
  "calculateMeasurementQuality features =
     (let s = lit (25/10);
          ns = [];
          (s, ns) =
            (if hasAdminData features
             then (jsAdd s (lit (10/10)), ns @ [''Administrative/registry data''])
             else (s, ns));
          (s, ns) =
            (if hasObjectiveMeasures features
             then (jsAdd s (lit (75/100)), ns @ [''Objective measures''])
             else (s, ns));
          (s, ns) =
            (if hasValidatedInstruments features
             then (jsAdd s (lit (5/10)), ns @ [''Validated instruments''])
             else (s, ns));
          (s, ns) =
            (if hasSelfReport features \<and> \<not> hasObjectiveMeasures features \<and> \<not> hasAdminData features
             then (jsSub s (lit (5/10)), ns @ [''Relies on self-report''])
             else (s, ns));
          ns =
            (if \<not> hasAdminData features \<and> \<not> hasObjectiveMeasures features \<and>
                \<not> hasValidatedInstruments features \<and> \<not> hasSelfReport features
             then ns @ [''Measurement approach unclear from abstract'']
             else ns);
          s = max 0 (min 5 s);
          s = jsDiv (mathRound (jsMul s 10)) 10
      in \<lparr> score = s,
           notesText = (if length ns > 0 then join ''; '' ns else ''Measurement quality unclear'') \<rparr>)"

definition calculateTransparency :: "ExtractedFeatures \<Rightarrow> ScoreSignals" where
  "calculateTransparency features =
     (let s = lit (15/10);
          sg = [];
          (s, sg) =
            (if hasPreRegistration features
             then (jsAdd s (lit (10/10)), sg @ [''Pre-registered'']) else (s, sg));
          (s, sg) =
            (if hasDataAvailability features
             then (jsAdd s (lit (75/100)), sg @ [''Data available'']) else (s, sg));
          (s, sg) =
            (if hasCodeAvailability features
             then (jsAdd s (lit (5/10)), sg @ [''Code available'']) else (s, sg));
          (s, sg) =
            (if hasCONSORT features
             then (jsAdd s (lit (5/10)), sg @ [''CONSORT reporting'']) else (s, sg));
          (s, sg) =
            (if hasPRISMA features
             then (jsAdd s (lit (5/10)), sg @ [''PRISMA guidelines'']) else (s, sg));
          (s, sg) =
            (if hasRobustnessChecks features
             then (jsAdd s (lit (5/10)), sg @ [''Robustness checks reported'']) else (s, sg));
          (s, sg) =
            (if hasSensitivityAnalysis features
             then (jsAdd s (lit (25/100)), sg @ [''Sensitivity analysis'']) else (s, sg));
          s = max 0 (min 5 s);
          s = jsDiv (mathRound (jsMul s 10)) 10
      in \<lparr> tscore = s,
           signals = (if length sg > 0 then sg else [''No transparency signals detected'']) \<rparr>)"

definition calculateOverallGrade ::
  "rat \<Rightarrow> RiskItem list \<Rightarrow> rat \<Rightarrow> rat \<Rightarrow> rat \<Rightarrow> EvidenceGrade" where
  "calculateOverallGrade causalStrength internalValidityRisks externalValidity
       measurementQuality transparency =
     (let w_causal = lit (40/100);
          w_internal = lit (25/100);
          w_external = lit (15/100);
          w_measurement = lit (10/100);
          w_transparency = lit (10/100);
          highRisks = length (filter (\<lambda>r. severity r = high) internalValidityRisks);
          medRisks = length (filter (\<lambda>r. severity r = medium) internalValidityRisks);
          internalScore =
            jsSub (jsSub 5 (jsMul (of_nat highRisks) (lit (15/10))))
                  (jsMul (of_nat medRisks) (lit (5/10)));
          internalScore = max 0 (min 5 internalScore);
          weightedScore =
            jsAdd (jsAdd (jsAdd (jsAdd (jsMul causalStrength w_causal)
                                       (jsMul internalScore w_internal))
                                (jsMul externalValidity w_external))
                         (jsMul measurementQuality w_measurement))
                  (jsMul transparency w_transparency)
      in if weightedScore \<ge> lit (42/10) then Very_Strong
         else if weightedScore \<ge> lit (34/10) then Strong
         else if weightedScore \<ge> lit (25/10) then Moderate
         else if weightedScore \<ge> lit (15/10) then Weak
         else Very_Weak)"

definition calculateConfidence :: "ExtractedFeatures \<Rightarrow> rat" where
  "calculateConfidence features =
     (let confidence = lit (3/10);
          keywordCount = length (matchedKeywords features);
          confidence = jsAdd confidence (min (lit (3/10)) (jsMul (of_nat keywordCount) (lit (3/100))));
          confidence = (if sampleSizeNumeric features \<noteq> None
                        then jsAdd confidence (lit (1/10)) else confidence);
          confidence = (if hasRandomization features \<or> hasDifferenceInDifferences features \<or>
                           hasInstrumentalVariable features \<or> hasRegressionDiscontinuity features \<or>
                           isMetaAnalysis features
                        then jsAdd confidence (lit (15/100)) else confidence);
          confidence = (if hasRobustnessChecks features
                        then jsAdd confidence (lit (5/100)) else confidence);
          confidence = (if hasPreRegistration features
                        then jsAdd confidence (lit (5/100)) else confidence);
          confidence = (if hasBalanceTests features
                        then jsAdd confidence (lit (5/100)) else confidence)
      in min 1 (jsDiv (mathRound (jsMul confidence 100)) 100))"

definition generateRecommendedUse :: "EvidenceGrade \<Rightarrow> rat \<Rightarrow> nat \<Rightarrow> string" where
  "generateRecommendedUse grade causalStrength highRiskCount =
     (if grade = Very_Strong then
        ''Suitable for quantitative decision-making and policy. High confidence in causal claims.''
      else if grade = Strong then
        ''Good basis for directional conclusions. Quantitative estimates should be treated with some caution.''
      else if grade = Moderate then
        (if causalStrength \<ge> 3 then
           ''Useful for directional insight. Recommend triangulation with other evidence before quantification.''
         else
           ''Provides suggestive evidence. Should be combined with other studies before drawing conclusions.'')
      else if grade = Weak then
        ''Exploratory or hypothesis-generating only. Not suitable for causal claims or quantification without substantial additional evidence.''
      else
        ''Very limited evidentiary value. Useful only for generating hypotheses. Do not use for decision-making.'')"

text \<open>
  \<open>getSampleSizeInfo\<close>. A string of the feature record is \<^verbatim>\<open>string | null\<close> and is tested
  for truthiness: neither \<^verbatim>\<open>null\<close> nor empty.
\<close>

definition getSampleSizeInfo :: "NumberFormat \<Rightarrow> ExtractedFeatures \<Rightarrow> string" where
  "getSampleSizeInfo fmt features =
     (case sampleSizeNumeric features of
        Some n \<Rightarrow>
          ''N = '' @ toLocaleString fmt n @
          (case sampleSizeText features of
             Some t \<Rightarrow> if t \<noteq> [] then '' (from: '' @ [CHR 0x22] @ t @ [CHR 0x22] @ '')'' else []
           | None \<Rightarrow> [])
      | None \<Rightarrow>
          (case studyCountText features of
             Some t \<Rightarrow> if t \<noteq> [] then ''Review of '' @ t
                       else ''Sample size not detected in text''
           | None \<Rightarrow> ''Sample size not detected in text''))"

section \<open>The classification pipeline (classifier.ts)\<close>

text \<open>The result object, with all its eighteen fields.\<close>

record ClassificationResult =
  study_type :: StudyType
  causal_method :: CausalMethod
  causal_method_indicators :: "string list"
  causal_strength :: rat
  causal_strength_justification :: string
  internal_validity_risks :: "RiskItem list"
  external_validity :: rat
  external_validity_notes :: string
  measurement_quality :: rat
  measurement_quality_notes :: string
  sample_size_info :: string
  transparency_reproducibility :: rat
  transparency_signals :: "string list"
  overall_evidence_grade :: EvidenceGrade
  confidence :: rat
  recommended_use :: string
  follow_up_questions :: "string list"
  disclaimer :: string

definition DISCLAIMER :: string where
  "DISCLAIMER = ''Automated heuristic classification based on text analysis. Not a substitute for full critical appraisal by domain experts. Does not constitute medical, legal, or policy advice.''"

text \<open>
  The regular expressions of the feature extractor are not modelled: \<open>classifyEvidence\<close>
  takes the extractor as an argument, after the number formatting of the runtime, and what
  is proved of it holds for whatever feature record the extractor returns on the text.
\<close>

definition classifyEvidence ::
  "NumberFormat \<Rightarrow> (string \<Rightarrow> ExtractedFeatures) \<Rightarrow> string \<Rightarrow> ClassificationResult" where
  "classifyEvidence fmt extractFeatures text =
     (let features = extractFeatures text;
          studyType = detectStudyType features;
          causalMethod = detectCausalMethod features studyType;
          causalMethodIndicators = getCausalMethodIndicators features;
          causalAssessment = assessCausalStrength fmt causalMethod features;
          internalValidityRisks = identifyThreats studyType causalMethod features;
          externalValidityResult = calculateExternalValidity features;
          measurementResult = calculateMeasurementQuality features;
          transparencyResult = calculateTransparency features;
          overallGrade = calculateOverallGrade (cscore causalAssessment) internalValidityRisks
                           (score externalValidityResult) (score measurementResult)
                           (tscore transparencyResult);
          conf = calculateConfidence features;
          highRiskCount = length (filter (\<lambda>r. severity r = high) internalValidityRisks);
          recommendedUse = generateRecommendedUse overallGrade (cscore causalAssessment)
                             highRiskCount;
          followUpQuestions = generateFollowUpQuestions studyType causalMethod features
                                internalValidityRisks;
          sampleSizeInfo = getSampleSizeInfo fmt features
      in \<lparr> study_type = studyType,
           causal_method = causalMethod,
           causal_method_indicators = causalMethodIndicators,
           causal_strength = cscore causalAssessment,
           causal_strength_justification = justification causalAssessment,
           internal_validity_risks = internalValidityRisks,
           external_validity = score externalValidityResult,
           external_validity_notes = notesText externalValidityResult,
           measurement_quality = score measurementResult,
           measurement_quality_notes = notesText measurementResult,
           sample_size_info = sampleSizeInfo,
           transparency_reproducibility = tscore transparencyResult,
           transparency_signals = signals transparencyResult,
           overall_evidence_grade = overallGrade,
           confidence = conf,
           recommended_use = recommendedUse,
           follow_up_questions = followUpQuestions,
           disclaimer = DISCLAIMER \<rparr>)"

section \<open>Reference inputs and specification-side definitions\<close>

text \<open>The feature record of a text on which no detector fires.\<close>

definition noFeatures :: ExtractedFeatures where
  "noFeatures = \<lparr>
     hasRandomization = False, hasPlacebo = False, hasControlGroup = False,
     hasBlinding = False, hasBaseline = False, hasClusterDesign = False,
     hasDifferenceInDifferences = False, hasParallelTrends = False, hasFixedEffects = False,
     hasInstrumentalVariable = False, hasRegressionDiscontinuity = False,
     hasMatchingPSM = False, hasSyntheticControl = False, hasEventStudy = False,
     hasPowerCalculation = False, hasPreRegistration = False, hasRobustnessChecks = False,
     hasBalanceTests = False, hasSensitivityAnalysis = False, hasCONSORT = False,
     hasPRISMA = False, hasDataAvailability = False, hasCodeAvailability = False,
     sampleSizeText = None, sampleSizeNumeric = None,
     hasAttritionDiscussion = False, hasSpilloverDiscussion = False,
     hasSelectionBiasDiscussion = False, hasExternalValidityDiscussion = False,
     isSystematicReview = False, isMetaAnalysis = False, studyCountText = None,
     hasValidatedInstruments = False, hasAdminData = False, hasSelfReport = False,
     hasObjectiveMeasures = False, matchedKeywords = [] \<rparr>"

text \<open>
  What one pass of the loop of \<open>identifyThreats\<close> pushes for one threat definition: no
  item or one item.
\<close>

definition emitRisk ::
  "ThreatDefinition \<Rightarrow> StudyType \<Rightarrow> CausalMethod \<Rightarrow> ExtractedFeatures \<Rightarrow> RiskItem list" where
  "emitRisk threat studyType method features =
     (if (case applicableTo threat of None \<Rightarrow> True | Some sts \<Rightarrow> studyType \<in> set sts) \<and>
         \<not> (case excludedMethods threat of None \<Rightarrow> False | Some ms \<Rightarrow> method \<in> set ms)
      then (case checkSeverity threat features studyType of
              None \<Rightarrow> []
            | Some sev \<Rightarrow> [\<lparr> risk = name threat, severity = sev,
                             reasoning = reasoning_fn threat features \<rparr>])
      else [])"

text \<open>
  A randomized, placebo-controlled, pre-registered trial with balance tests and a sample
  of 1,200.
\<close>

definition rctFeatures :: ExtractedFeatures where
  "rctFeatures = noFeatures\<lparr>
     hasRandomization := True, hasPlacebo := True, hasPreRegistration := True,
     hasBalanceTests := True, sampleSizeNumeric := Some 1200 \<rparr>"

text \<open>
  A short description of a difference-in-differences study, and the feature record that
  the patterns of the extractor give on it: the words ``difference-in-differences'',
  ``parallel trend'', ``power calculation'', ``trial registration'', ``CONSORT'' and
  ``external validity'' (whose second word is also a pattern of the validated
  instruments) match, \<^verbatim>\<open>N = 200\<close> is the sample size, and no other pattern matches.
\<close>

definition didText :: string where
  "didText = ''A difference-in-differences design under the parallel trend assumption. Power calculation and trial registration reported, following CONSORT. N = 200. External validity is discussed.''"

definition didFeatures :: ExtractedFeatures where
  "didFeatures = noFeatures\<lparr>
     hasDifferenceInDifferences := True, hasParallelTrends := True,
     hasPowerCalculation := True, hasPreRegistration := True, hasCONSORT := True,
     sampleSizeText := Some ''N = 200'', sampleSizeNumeric := Some 200,
     hasExternalValidityDiscussion := True, hasValidatedInstruments := True,
     matchedKeywords := [''difference_in_differences'', ''parallel_trends'',
       ''power_calculation'', ''pre_registration'', ''CONSORT'', ''external_validity'',
       ''validated_instruments''] \<rparr>"

text \<open>
  A number formatting for the reference inputs. It prints a number with at most one
  decimal as the runtime does (\<^verbatim>\<open>4.5\<close>, \<^verbatim>\<open>-0.5\<close>, \<^verbatim>\<open>1\<close>) and groups the digits of an
  integer in threes (\<^verbatim>\<open>1,200\<close>).
\<close>

definition digit :: "nat \<Rightarrow> char" where
  "digit n = char_of (48 + n mod 10)"

fun showNat :: "nat \<Rightarrow> string" where
  "showNat n = (if n < 10 then [digit n] else showNat (n div 10) @ [digit n])"

fun showGrouped :: "nat \<Rightarrow> string" where
  "showGrouped n =
     (if n < 1000 then showNat n
      else showGrouped (n div 1000) @ '','' @
           [digit (n div 100), digit (n div 10), digit n])"

definition showTenths :: "rat \<Rightarrow> string" where
  "showTenths x =
     (let t = nat \<lfloor>\<bar>x\<bar> * 10 + 1/2\<rfloor>
      in (if x < 0 then ''-'' else []) @ showNat (t div 10) @
         (if t mod 10 = 0 then [] else ''.'' @ [digit t]))"

definition referenceFormat :: NumberFormat where
  "referenceFormat = \<lparr> numberToString = showTenths, toLocaleString = showGrouped \<rparr>"

text \<open>A risk list with two high-severity items around a medium one.\<close>

definition twoHighRisks :: "RiskItem list" where
  "twoHighRisks = [
     \<lparr> risk = ''Selection bias'', severity = high, reasoning = [] \<rparr>,
     \<lparr> risk = ''Measurement error'', severity = medium, reasoning = [] \<rparr>,
     \<lparr> risk = ''Unobserved confounding'', severity = high, reasoning = [] \<rparr> ]"

text \<open>
  The follow-up checklist as the specification words it: nine entries in a fixed order,
  each contributing its questions when its condition holds.
\<close>

definition spec_followUpChecklist ::
  "CausalMethod \<Rightarrow> ExtractedFeatures \<Rightarrow> RiskItem list \<Rightarrow> string list" where
  "spec_followUpChecklist method features risks = concat [
     (if sampleSizeNumeric features = None then [''What is the sample size?''] else []),
     (if method = difference_in_differences \<and> \<not> hasParallelTrends features
      then [''Is there evidence supporting the parallel trends assumption?''] else []),
     (if method = instrumental_variables
      then [''What is the first-stage F-statistic for instrument strength?'',
            ''What is the theoretical argument for the exclusion restriction?''] else []),
     (if method = regression_discontinuity \<and> \<not> hasSensitivityAnalysis features
      then [''Were manipulation/McCrary tests conducted?'',
            ''How sensitive are results to bandwidth choice?''] else []),
     (if method = randomization \<and> \<not> hasAttritionDiscussion features
      then [''What was the attrition rate and was it differential?''] else []),
     (if \<not> hasPreRegistration features then [''Was the analysis pre-registered?''] else []),
     (if \<not> hasRobustnessChecks features
      then [''Were robustness checks or alternative specifications explored?''] else []),
     (if filter (\<lambda>r. severity r = high) risks \<noteq> []
      then [''How does the study address: '' @
              join '', '' (map (\<lambda>r. toLowerCase (risk r))
                             (filter (\<lambda>r. severity r = high) risks)) @
              ''?'']
      else []),
     (if \<not> hasExternalValidityDiscussion features
      then [''What population/context do these results generalize to?''] else [])
   ]"

text \<open>
  External validity as the specification words it, in exact arithmetic: the three
  sample-size adjustments are tiers (the first that applies), the review bonus is keyed
  to the detected study type, and rounding to one decimal rounds a tie up.
\<close>

definition spec_externalValidity :: "ExtractedFeatures \<Rightarrow> rat" where
  "spec_externalValidity f =
     (let baseline = (5/2 :: rat);
          sampleTerm = (case sampleSizeNumeric f of
                          None \<Rightarrow> 0
                        | Some n \<Rightarrow> if n \<ge> 10000 then 1
                                    else if n \<ge> 1000 then 1/2
                                    else if n < 100 then - (1/2)
                                    else 0);
          discussedTerm = (if hasExternalValidityDiscussion f then 1/2 else 0);
          reviewTerm = (if detectStudyType f = systematic_review \<or>
                           detectStudyType f = meta_analysis then 1/2 else 0);
          clamped = max 0 (min 5 (baseline + sampleTerm + discussedTerm + reviewTerm))
      in of_int \<lfloor>clamped * 10 + 1/2\<rfloor> / 10)"

text \<open>
  The overall grade as the specification words it, in exact arithmetic: the
  internal-validity score from the counts of high and medium risks, the weighted sum of
  the five scores, and the thresholds 4.2, 3.4, 2.5 and 1.5.
\<close>

definition spec_internalScore :: "RiskItem list \<Rightarrow> rat" where
  "spec_internalScore risks =
     max 0 (min 5 (5 - (3/2) * of_nat (count_list (map severity risks) high)
                     - (1/2) * of_nat (count_list (map severity risks) medium)))"

definition spec_weightedSum :: "rat \<Rightarrow> rat \<Rightarrow> rat \<Rightarrow> rat \<Rightarrow> rat \<Rightarrow> rat" where
  "spec_weightedSum causalStrength internalScore externalValidity measurementQuality transparency =
     (40/100) * causalStrength + (25/100) * internalScore + (15/100) * externalValidity +
     (10/100) * measurementQuality + (10/100) * transparency"

definition spec_gradeOf :: "rat \<Rightarrow> EvidenceGrade" where
  "spec_gradeOf w =
     (if w \<ge> 42/10 then Very_Strong
      else if w \<ge> 34/10 then Strong
      else if w \<ge> 25/10 then Moderate
      else if w \<ge> 15/10 then Weak
      else Very_Weak)"

text \<open>
  A score of the result is the double nearest to a number with one decimal between 0 and
  5; \<open>oneDecimal\<close> gives that number, which is what the score denotes in the formula of
  the specification.
\<close>

definition oneDecimal :: "rat \<Rightarrow> rat" where
  "oneDecimal x = of_int \<lfloor>x * 10 + 1/2\<rfloor> / 10"

definition isScore :: "rat \<Rightarrow> bool" where
  "isScore x = (x = lit (oneDecimal x) \<and> 0 \<le> oneDecimal x \<and> oneDecimal x \<le> 5)"

text \<open>A risk list with given severities, for the evaluation of the grade on its own.\<close>

definition risksOf :: "Severity list \<Rightarrow> RiskItem list" where
  "risksOf svs = map (\<lambda>s. \<lparr> risk = [], severity = s, reasoning = [] \<rparr>) svs"

definition scoreInRange :: "ScoreNotes \<Rightarrow> bool" where
  "scoreInRange r = (0 \<le> score r \<and> score r \<le> 5)"

definition tscoreInRange :: "ScoreSignals \<Rightarrow> bool" where
  "tscoreInRange r = (0 \<le> tscore r \<and> tscore r \<le> 5)"

section \<open>Properties of rounding to a double\<close>

lemma flog2_bounds:
  "0 < x \<Longrightarrow> 2 powi (flog2 x) \<le> x \<and> x < 2 powi (flog2 x + 1)"
proof (induction x rule: flog2.induct)
  case (1 x)
  show ?case
  proof (cases "2 \<le> x")
    case True
    then have fx: "flog2 x = flog2 (x / 2) + 1" using "1.prems" by (subst flog2.simps) simp
    have ih: "2 powi (flog2 (x / 2)) \<le> x / 2 \<and> x / 2 < 2 powi (flog2 (x / 2) + 1)"
      using "1.IH"(1) "1.prems" True by simp
    show ?thesis unfolding fx using ih by (simp add: power_int_add)
  next
    case False
    show ?thesis
    proof (cases "x < 1")
      case True
      then have fx: "flog2 x = flog2 (x * 2) - 1"
        using "1.prems" False by (subst flog2.simps) simp
      have ih: "2 powi (flog2 (x * 2)) \<le> x * 2 \<and> x * 2 < 2 powi (flog2 (x * 2) + 1)"
        using "1.IH"(2) "1.prems" False True by simp
      show ?thesis unfolding fx using ih by (simp add: power_int_add power_int_diff)
    next
      case False
      then have "flog2 x = 0" using "1.prems" \<open>\<not> 2 \<le> x\<close> by (subst flog2.simps) simp
      then show ?thesis using False \<open>\<not> 2 \<le> x\<close> by simp
    qed
  qed
qed

lemma pow2_less_cancel: "(2::rat) powi a < 2 powi b \<Longrightarrow> a < b"
  using power_int_increasing [of b a "2::rat"] by (cases "a < b") auto

lemma flog2_unique:
  assumes "0 < x" "2 powi e \<le> x" "x < 2 powi (e + 1)"
  shows "flog2 x = e"
proof -
  have b: "2 powi (flog2 x) \<le> x" "x < 2 powi (flog2 x + 1)"
    using flog2_bounds [OF assms(1)] by simp_all
  have "(2::rat) powi e < 2 powi (flog2 x + 1)" using assms(2) b(2) by simp
  then have 1: "e < flog2 x + 1" by (rule pow2_less_cancel)
  have "(2::rat) powi (flog2 x) < 2 powi (e + 1)" using assms(3) b(1) by simp
  then have 2: "flog2 x < e + 1" by (rule pow2_less_cancel)
  show ?thesis using 1 2 by simp
qed

lemma flog2_mono: "0 < x \<Longrightarrow> x \<le> y \<Longrightarrow> flog2 x \<le> flog2 y"
proof -
  assume x: "0 < x" and xy: "x \<le> y"
  have "(2::rat) powi (flog2 x) \<le> x" using flog2_bounds [OF x] by simp
  also have "x \<le> y" by fact
  also have "y < 2 powi (flog2 y + 1)" using flog2_bounds [of y] x xy by simp
  finally have "flog2 x < flog2 y + 1" by (rule pow2_less_cancel)
  then show ?thesis by simp
qed

lemma round_even_of_int [simp]: "round_even (of_int n) = n"
  by (simp add: round_even_def)

lemma round_even_mono: "x \<le> y \<Longrightarrow> round_even x \<le> round_even y"
proof -
  assume xy: "x \<le> y"
  have fm: "\<lfloor>x\<rfloor> \<le> \<lfloor>y\<rfloor>" using xy by (rule floor_mono)
  show ?thesis
  proof (cases "\<lfloor>x\<rfloor> = \<lfloor>y\<rfloor>")
    case True
    then show ?thesis using xy by (auto simp: round_even_def Let_def)
  next
    case False
    then have lt: "\<lfloor>x\<rfloor> + 1 \<le> \<lfloor>y\<rfloor>" using fm by simp
    have a: "round_even x \<le> \<lfloor>x\<rfloor> + 1" by (simp add: round_even_def Let_def)
    have b: "\<lfloor>y\<rfloor> \<le> round_even y" by (simp add: round_even_def Let_def)
    show ?thesis using a b lt by simp
  qed
qed

lemma round_even_neg: "round_even (- x) = - round_even x"
proof (cases "x \<in> \<int>")
  case True
  then obtain n where "x = of_int n" by (auto elim: Ints_cases)
  then show ?thesis by (simp flip: of_int_minus)
next
  case False
  have ne: "x \<noteq> of_int \<lfloor>x\<rfloor>" using False by (metis Ints_of_int)
  then have fl: "\<lfloor>- x\<rfloor> = - \<lfloor>x\<rfloor> - 1"
    by (simp add: floor_minus ceiling_altdef)
  show ?thesis
    unfolding round_even_def Let_def fl
    using ne by (auto simp: algebra_simps)
qed

lemma fl_0 [simp]: "fl 0 = 0"
  by (simp add: fl_def)

lemma fl_neg: "fl (- x) = - fl x"
  by (simp add: fl_def Let_def round_even_neg)

text \<open>Numbers with at most 53 significant bits are fixed points.\<close>

lemma fl_exact:
  assumes "\<bar>n\<bar> \<le> 2 ^ 53"
  shows "fl (of_int n * 2 powi k) = of_int n * 2 powi k"
proof (cases "n = 0")
  case True
  then show ?thesis by simp
next
  case False
  define x :: rat where "x = of_int n * 2 powi k"
  define e where "e = flog2 \<bar>x\<bar>"
  have xpos: "0 < \<bar>x\<bar>" using False by (simp add: x_def)
  have ax: "\<bar>x\<bar> = of_int \<bar>n\<bar> * 2 powi k" by (simp add: x_def abs_mult)
  have lo: "2 powi e \<le> \<bar>x\<bar>" using flog2_bounds [OF xpos] by (simp add: e_def)
  have "of_int \<bar>n\<bar> \<le> (2::rat) ^ 53" using assms by (metis of_int_le_iff of_int_numeral of_int_power)
  then have "\<bar>x\<bar> \<le> 2 ^ 53 * 2 powi k" unfolding ax by (intro mult_right_mono) simp_all
  also have "\<dots> = 2 powi (53 + k)" by (simp add: power_int_add)
  finally have "(2::rat) powi e \<le> 2 powi (53 + k)" using lo by simp
  then have ek: "e \<le> 53 + k"
    using power_int_strict_increasing [of "53 + k" e "2::rat"] by (cases "e \<le> 53 + k") auto
  show ?thesis
  proof (cases "e = 53 + k")
    case True
    have "\<bar>x\<bar> = 2 ^ 53 * 2 powi k"
      using lo \<open>\<bar>x\<bar> \<le> 2 ^ 53 * 2 powi k\<close> by (simp add: True power_int_add)
    then have "(of_int \<bar>n\<bar> :: rat) = 2 ^ 53" unfolding ax by simp
    then have "\<bar>n\<bar> = 2 ^ 53" by (metis of_int_eq_iff of_int_numeral of_int_power)
    then have "n = 2 ^ 53 \<or> n = - (2 ^ 53)" by linarith
    then have ev: "n = 2 * (n div 2)" by auto
    have e52: "e - 52 = k + 1" using True by simp
    have "x / 2 powi (e - 52) = of_int n * 2 powi k / 2 powi (k + 1)"
      unfolding e52 by (simp add: x_def)
    also have "\<dots> = of_int n / 2" by (simp add: power_int_add)
    also have "\<dots> = of_int (n div 2)" by (subst ev) simp
    finally have "round_even (x / 2 powi (e - 52)) = n div 2"
      by (simp only: round_even_of_int)
    then have "fl x = of_int (n div 2) * 2 powi (e - 52)"
      using xpos by (simp add: fl_def Let_def e_def [symmetric])
    then have "fl x = of_int (n div 2) * 2 powi (k + 1)"
      unfolding e52 .
    also have "\<dots> = of_int (2 * (n div 2)) * 2 powi k" by (simp add: power_int_add)
    also have "\<dots> = x" unfolding x_def using ev by simp
    finally show ?thesis by (simp add: x_def)
  next
    case False
    then have d: "0 \<le> 52 - e + k" using ek by simp
    have "x / 2 powi (e - 52) = of_int n * 2 powi (k - (e - 52))"
      by (simp add: x_def power_int_diff)
    also have "\<dots> = of_int (n * 2 ^ nat (52 - e + k))"
      using d by (simp add: power_int_def algebra_simps)
    finally have "round_even (x / 2 powi (e - 52)) = n * 2 ^ nat (52 - e + k)"
      by (simp only: round_even_of_int)
    then have "fl x = of_int (n * 2 ^ nat (52 - e + k)) * 2 powi (e - 52)"
      using xpos by (simp add: fl_def Let_def e_def)
    also have "\<dots> = of_int n * 2 powi (k - (e - 52)) * 2 powi (e - 52)"
      using d by (simp add: power_int_def algebra_simps)
    also have "\<dots> = x" by (simp add: x_def power_int_diff)
    finally show ?thesis by (simp add: x_def)
  qed
qed

lemma round_even_bounds:
  assumes "of_int a \<le> x" "x \<le> of_int b"
  shows "a \<le> round_even x \<and> round_even x \<le> b"
  using round_even_mono [OF assms(1)] round_even_mono [OF assms(2)] by simp

text \<open>The result of rounding has at most 53 significant bits.\<close>

lemma fl_form:
  assumes "0 < x"
  shows "\<exists>n. 2 ^ 52 \<le> n \<and> n \<le> 2 ^ 53 \<and> fl x = of_int n * 2 powi (flog2 x - 52)"
proof -
  define e where "e = flog2 x"
  define u :: rat where "u = 2 powi (e - 52)"
  have u: "0 < u" by (simp add: u_def)
  have b: "2 powi e \<le> x" "x < 2 powi (e + 1)" using flog2_bounds [OF assms] by (simp_all add: e_def)
  have e1: "2 powi e / u = 2 ^ 52" by (simp add: u_def power_int_diff)
  have "2 powi e / u \<le> x / u" using b(1) u by (simp add: divide_right_mono)
  then have lo: "of_int (2 ^ 52) \<le> x / u" unfolding e1 by simp
  have e2: "2 powi (e + 1) / u = 2 ^ 53" by (simp add: u_def power_int_diff power_int_add)
  have "x / u \<le> 2 powi (e + 1) / u" using b(2) u by (simp add: divide_right_mono less_imp_le)
  then have hi: "x / u \<le> of_int (2 ^ 53)" unfolding e2 by simp
  have "fl x = of_int (round_even (x / u)) * u"
    using assms by (simp add: fl_def Let_def e_def u_def)
  then show ?thesis
    using round_even_bounds [OF lo hi] by (auto simp: u_def e_def)
qed

lemma fl_idem: "fl (fl x) = fl x"
proof -
  have pos: "fl (fl x) = fl x" if xp: "0 < x" for x
  proof -
    obtain n where n: "2 ^ 52 \<le> n" "n \<le> 2 ^ 53" "fl x = of_int n * 2 powi (flog2 x - 52)"
      using fl_form [OF xp] by blast
    have "\<bar>n\<bar> \<le> 2 ^ 53" using n(1,2) by simp
    then show ?thesis unfolding n(3) by (rule fl_exact)
  qed
  show ?thesis
  proof (cases "0 < x")
    case True then show ?thesis by (rule pos)
  next
    case False
    show ?thesis
    proof (cases "x = 0")
      case True then show ?thesis by simp
    next
      case False
      with \<open>\<not> 0 < x\<close> have "0 < - x" by simp
      then have "fl (fl (- x)) = fl (- x)" by (rule pos)
      then show ?thesis by (simp add: fl_neg)
    qed
  qed
qed

lemma fl_pos_bounds:
  assumes "0 < x"
  shows "2 powi (flog2 x) \<le> fl x \<and> fl x \<le> 2 powi (flog2 x + 1)"
proof -
  obtain n where n: "2 ^ 52 \<le> n" "n \<le> 2 ^ 53" "fl x = of_int n * 2 powi (flog2 x - 52)"
    using fl_form [OF assms] by blast
  have a: "(2::rat) ^ 52 \<le> of_int n" using n(1) by (metis of_int_le_iff of_int_numeral of_int_power)
  have b: "of_int n \<le> (2::rat) ^ 53" using n(2) by (metis of_int_le_iff of_int_numeral of_int_power)
  have "2 powi (flog2 x) = 2 ^ 52 * (2::rat) powi (flog2 x - 52)" by (simp add: power_int_diff)
  also have "\<dots> \<le> of_int n * 2 powi (flog2 x - 52)" using a by (intro mult_right_mono) simp_all
  finally have lo: "2 powi (flog2 x) \<le> fl x" by (simp add: n(3))
  have "of_int n * (2::rat) powi (flog2 x - 52) \<le> 2 ^ 53 * 2 powi (flog2 x - 52)"
    using b by (intro mult_right_mono) simp_all
  also have "\<dots> = 2 powi (flog2 x + 1)" by (simp add: power_int_diff power_int_add)
  finally have hi: "fl x \<le> 2 powi (flog2 x + 1)" by (simp add: n(3))
  show ?thesis using lo hi by simp
qed

lemma fl_mono_pos:
  assumes "0 < x" "x \<le> y"
  shows "fl x \<le> fl y"
proof -
  have y: "0 < y" using assms by simp
  have le: "flog2 x \<le> flog2 y" using assms by (rule flog2_mono)
  show ?thesis
  proof (cases "flog2 x = flog2 y")
    case True
    define u :: rat where "u = 2 powi (flog2 x - 52)"
    have u: "0 < u" by (simp add: u_def)
    have "x / u \<le> y / u" using assms(2) u by (simp add: divide_right_mono)
    then have "round_even (x / u) \<le> round_even (y / u)" by (rule round_even_mono)
    then have "of_int (round_even (x / u)) * u \<le> of_int (round_even (y / u)) * u"
      using u by (simp add: mult_right_mono)
    then show ?thesis using assms(1) y by (simp add: fl_def Let_def u_def True)
  next
    case False
    then have "flog2 x + 1 \<le> flog2 y" using le by simp
    then have "(2::rat) powi (flog2 x + 1) \<le> 2 powi (flog2 y)"
      by (intro power_int_increasing) simp_all
    then show ?thesis
      using fl_pos_bounds [OF assms(1)] fl_pos_bounds [OF y] by simp
  qed
qed

lemma fl_nonneg: "0 \<le> x \<Longrightarrow> 0 \<le> fl x"
proof (cases "x = 0")
  case False
  assume "0 \<le> x"
  with False have x: "0 < x" by simp
  have "(0::rat) \<le> 2 powi (flog2 x)" by simp
  then show ?thesis using fl_pos_bounds [OF x] by linarith
qed simp

lemma fl_mono: "x \<le> y \<Longrightarrow> fl x \<le> fl y"
proof -
  assume xy: "x \<le> y"
  consider "0 < x" | "x \<le> 0" "0 \<le> y" | "y < 0" by linarith
  then show ?thesis
  proof cases
    case 1 then show ?thesis using xy by (rule fl_mono_pos)
  next
    case 2
    have "fl x \<le> 0" using fl_nonneg [of "- x"] 2(1) by (simp add: fl_neg)
    moreover have "0 \<le> fl y" using 2(2) by (rule fl_nonneg)
    ultimately show ?thesis by simp
  next
    case 3
    then have "fl (- y) \<le> fl (- x)" using xy by (intro fl_mono_pos) simp_all
    then show ?thesis by (simp add: fl_neg)
  qed
qed

text \<open>Rounding moves a number of magnitude at most 8 by at most \<open>2\<^sup>-\<^sup>5\<^sup>0\<close>.\<close>

lemma round_even_close: "\<bar>of_int (round_even y) - y\<bar> \<le> 1/2"
proof -
  define n where "n = \<lfloor>y\<rfloor>"
  define d where "d = y - of_int n"
  have d: "0 \<le> d" "d < 1" unfolding d_def n_def by linarith+
  have y: "y = of_int n + d" by (simp add: d_def)
  have re: "round_even y =
              (if d < 1/2 then n else if d > 1/2 then n + 1 else if even n then n else n + 1)"
    unfolding round_even_def Let_def n_def d_def ..
  show ?thesis unfolding re using d by (subst y) (auto simp: abs_if)
qed

lemma flog2_8: "flog2 8 = 3"
  by (rule flog2_unique) (simp_all add: power_int_add)

lemma fl_close_pos:
  assumes "0 < x" "x \<le> 8"
  shows "\<bar>fl x - x\<bar> \<le> 1/1125899906842624"
proof -
  define e where "e = flog2 x"
  define u :: rat where "u = 2 powi (e - 52)"
  have u: "0 < u" by (simp add: u_def)
  have "e \<le> 3" using flog2_mono [OF assms] by (simp add: e_def flog2_8)
  then have "u \<le> 2 powi (3 - 52)" unfolding u_def by (intro power_int_increasing) simp_all
  also have "\<dots> = 1/562949953421312" by (simp add: power_int_def power_one_over)
  finally have ub: "u \<le> 1/562949953421312" .
  have f: "fl x = of_int (round_even (x / u)) * u"
    using assms(1) by (simp add: fl_def Let_def e_def u_def)
  have "fl x - x = (of_int (round_even (x / u)) - x / u) * u"
    using u by (simp add: f field_simps)
  then have "\<bar>fl x - x\<bar> = \<bar>of_int (round_even (x / u)) - x / u\<bar> * u"
    using u by (simp add: abs_mult)
  also have "\<dots> \<le> (1/2) * u" using round_even_close [of "x / u"] u by (intro mult_right_mono) simp_all
  finally show ?thesis using ub by linarith
qed

lemma fl_close: "\<bar>x\<bar> \<le> 8 \<Longrightarrow> \<bar>fl x - x\<bar> \<le> 1/1125899906842624"
proof -
  assume a: "\<bar>x\<bar> \<le> 8"
  consider "0 < x" | "x = 0" | "x < 0" by linarith
  then show ?thesis
  proof cases
    case 1 then show ?thesis using a by (intro fl_close_pos) simp_all
  next
    case 2 then show ?thesis by simp
  next
    case 3
    then have "\<bar>fl (- x) - (- x)\<bar> \<le> 1/1125899906842624" using a by (intro fl_close_pos) simp_all
    then show ?thesis using abs_minus_commute [of x "fl x"] by (simp add: fl_neg)
  qed
qed


section \<open>Properties of study-type detection and of the recommended use\<close>

lemma sortedRules_eq: "sortedRules = STUDY_TYPE_RULES"
  unfolding sortedRules_def
  by (rule sort_key_id_if_sorted) (simp add: STUDY_TYPE_RULES_def)

lemma detectStudyType_unfold:
  "detectStudyType f =
     (if isMetaAnalysis f then meta_analysis
      else if isSystematicReview f \<and> \<not> isMetaAnalysis f then systematic_review
      else if hasRandomization f \<and> hasControlGroup f \<and> hasClusterDesign f \<and>
              \<not> hasInstrumentalVariable f \<and> \<not> hasRegressionDiscontinuity f \<and>
              \<not> hasDifferenceInDifferences f \<and> \<not> hasSyntheticControl f then cluster_rct
      else if hasRandomization f \<and> (hasControlGroup f \<or> hasPlacebo f) \<and>
              \<not> hasInstrumentalVariable f \<and> \<not> hasRegressionDiscontinuity f \<and>
              \<not> hasDifferenceInDifferences f \<and> \<not> hasSyntheticControl f then rct
      else if hasSyntheticControl f then quasi_experimental_synthetic_control
      else if hasRegressionDiscontinuity f then quasi_experimental_rdd
      else if hasInstrumentalVariable f then quasi_experimental_iv
      else if hasEventStudy f \<and> \<not> hasDifferenceInDifferences f then quasi_experimental_event_study
      else if hasDifferenceInDifferences f \<or> (hasFixedEffects f \<and> hasParallelTrends f)
           then quasi_experimental_did
      else if hasMatchingPSM f \<and> \<not> hasRandomization f then quasi_experimental_matching
      else if hasBaseline f \<and> \<not> hasRandomization f \<and> \<not> hasDifferenceInDifferences f \<and>
              \<not> hasInstrumentalVariable f \<and> \<not> hasRegressionDiscontinuity f
           then observational_cohort
      else if \<not> hasRandomization f \<and> \<not> hasDifferenceInDifferences f \<and>
              \<not> hasInstrumentalVariable f \<and> \<not> hasRegressionDiscontinuity f \<and>
              \<not> hasBaseline f \<and> (sampleSizeNumeric f \<noteq> None \<or> hasSelfReport f)
           then observational_cross_sectional
      else unknown)"
  by (simp only: detectStudyType_def sortedRules_eq STUDY_TYPE_RULES_def firstMatch.simps
        StudyTypeRule.select_convs)

text \<open>
  C2. Whenever both the randomization flag and the instrumental-variable flag are set,
  \<open>detectStudyType\<close> does not return \<open>rct\<close> (nor \<open>cluster_rct\<close>), whatever the other
  features are: it returns one of the review types, synthetic control, regression
  discontinuity or instrumental variables, and it is the instrumental-variables type
  as soon as no rule of higher priority (review, synthetic control, regression
  discontinuity) fires.
\<close>

theorem detectStudyType_rand_iv_not_rct:
  assumes "hasRandomization f" and "hasInstrumentalVariable f"
  shows "detectStudyType f \<noteq> rct \<and> detectStudyType f \<noteq> cluster_rct \<and>
         detectStudyType f \<in> {meta_analysis, systematic_review,
            quasi_experimental_synthetic_control, quasi_experimental_rdd, quasi_experimental_iv} \<and>
         (\<not> isMetaAnalysis f \<and> \<not> isSystematicReview f \<and> \<not> hasSyntheticControl f \<and>
          \<not> hasRegressionDiscontinuity f \<longrightarrow> detectStudyType f = quasi_experimental_iv)"
  using assms by (simp add: detectStudyType_unfold)

text \<open>
  C10. \<open>generateRecommendedUse\<close> ignores its third argument; its result is fixed by the
  grade alone, except for \<open>Moderate\<close>, where it is fixed by whether the causal strength
  is at least 3.
\<close>

theorem generateRecommendedUse_independent:
  "generateRecommendedUse grade causalStrength h1 = generateRecommendedUse grade causalStrength h2 \<and>
   (grade \<noteq> Moderate \<longrightarrow>
      generateRecommendedUse grade c1 h1 = generateRecommendedUse grade c2 h2) \<and>
   ((c1 \<ge> 3) = (c2 \<ge> 3) \<longrightarrow>
      generateRecommendedUse Moderate c1 h1 = generateRecommendedUse Moderate c2 h2)"
  by (simp add: generateRecommendedUse_def)

theorem detectStudyType_rand_iv_not_rct_witness:
  "hasRandomization (noFeatures\<lparr>hasRandomization := True, hasPlacebo := True,
                                 hasInstrumentalVariable := True\<rparr>) \<and>
   hasInstrumentalVariable (noFeatures\<lparr>hasRandomization := True, hasPlacebo := True,
                                        hasInstrumentalVariable := True\<rparr>) \<and>
   detectStudyType (noFeatures\<lparr>hasRandomization := True, hasPlacebo := True,
                                hasInstrumentalVariable := True\<rparr>) = quasi_experimental_iv"
  using detectStudyType_rand_iv_not_rct
          [of "noFeatures\<lparr>hasRandomization := True, hasPlacebo := True,
                           hasInstrumentalVariable := True\<rparr>"]
  by (simp add: noFeatures_def)

theorem generateRecommendedUse_independent_witness:
  "Weak \<noteq> Moderate \<and> ((3::rat) \<ge> 3) = ((4::rat) \<ge> 3) \<and>
   generateRecommendedUse Weak 3 0 = generateRecommendedUse Weak 4 7 \<and>
   generateRecommendedUse Moderate 3 0 = generateRecommendedUse Moderate 4 7"
proof -
  have h1: "Weak \<noteq> Moderate" by simp
  have h2: "((3::rat) \<ge> 3) = ((4::rat) \<ge> 3)" by simp
  show ?thesis
    using generateRecommendedUse_independent [of Weak 3 0 7 3 4] h1 h2 by blast
qed

section \<open>Properties of threat identification\<close>

lemmas threat_defs = threat_selection_bias_def threat_attrition_bias_def
     threat_parallel_trends_def threat_weak_instruments_def threat_exclusion_restriction_def
     threat_manipulation_def threat_spillover_def threat_measurement_error_def
     threat_multiple_testing_def threat_publication_bias_def threat_generalizability_def
     threat_unobserved_confounding_def

lemma threat_names:
  "name threat_selection_bias = ''Selection bias''"
  "name threat_attrition_bias = ''Attrition bias''"
  "name threat_parallel_trends = ''Parallel trends violation''"
  "name threat_weak_instruments = ''Weak instruments''"
  "name threat_exclusion_restriction = ''Exclusion restriction violation''"
  "name threat_manipulation = ''Running variable manipulation''"
  "name threat_spillover = ''Spillover/SUTVA violation''"
  "name threat_measurement_error = ''Measurement error''"
  "name threat_multiple_testing = ''Multiple hypothesis testing''"
  "name threat_publication_bias = ''Publication bias''"
  "name threat_generalizability = ''Limited generalizability''"
  "name threat_unobserved_confounding = ''Unobserved confounding''"
  by (simp_all add: threat_defs)

lemma threatLoop_append:
  "threatLoop ts st m f acc = acc @ concat (map (\<lambda>t. emitRisk t st m f) ts)"
  by (induction ts arbitrary: acc) (simp_all add: emitRisk_def Let_def split: option.splits)

lemma emitRisk_names:
  "map risk (concat (map (\<lambda>t. emitRisk t st m f) ts)) =
   map name (filter (\<lambda>t. emitRisk t st m f \<noteq> []) ts)"
  by (induction ts) (simp_all add: emitRisk_def split: option.splits)

lemma subseq_names:
  "subseq (map risk (threatLoop THREAT_DEFINITIONS st m f [])) (map name THREAT_DEFINITIONS)"
  by (simp add: threatLoop_append emitRisk_names subseq_map)

lemma sorted_identifyThreats:
  "sorted (map (\<lambda>r. severityOrder (severity r)) (identifyThreats st m f))"
  unfolding identifyThreats_def by (rule sorted_sort_key)

lemma stable_identifyThreats:
  "filter (\<lambda>r. severity r = s) (identifyThreats st m f) =
   filter (\<lambda>r. severity r = s) (threatLoop THREAT_DEFINITIONS st m f [])"
proof -
  have inj: "\<And>a b. (severityOrder a = severityOrder b) = (a = b)"
    by (simp add: severityOrder_def split: Severity.splits)
  have "filter (\<lambda>r. severityOrder (severity r) = severityOrder s) (identifyThreats st m f) =
        filter (\<lambda>r. severityOrder (severity r) = severityOrder s)
          (threatLoop THREAT_DEFINITIONS st m f [])"
    unfolding identifyThreats_def by (rule sort_key_stable)
  then show ?thesis by (simp add: inj)
qed

lemma distinct_names: "distinct (map name THREAT_DEFINITIONS)"
  by (simp add: THREAT_DEFINITIONS_def threat_names)

lemma emitRisk_None: "checkSeverity t f st = None \<Longrightarrow> emitRisk t st m f = []"
  by (simp add: emitRisk_def)

lemma emitRisk_Some:
  "checkSeverity t f st = Some s \<Longrightarrow>
   emitRisk t st m f =
     (if (case applicableTo t of None \<Rightarrow> True | Some sts \<Rightarrow> st \<in> set sts) \<and>
         \<not> (case excludedMethods t of None \<Rightarrow> False | Some ms \<Rightarrow> m \<in> set ms)
      then [\<lparr> risk = name t, severity = s, reasoning = reasoning_fn t f \<rparr>] else [])"
  by (simp add: emitRisk_def)

lemma filter_emitRisk:
  "filter (\<lambda>r. risk r = n) (emitRisk t st m f) = (if name t = n then emitRisk t st m f else [])"
  by (cases "checkSeverity t f st") (simp_all add: emitRisk_None emitRisk_Some)

lemma sort_key_short: "length xs \<le> 1 \<Longrightarrow> sort_key k xs = xs"
  by (cases xs) simp_all

lemma filter_name_threatLoop:
  "filter (\<lambda>r. risk r = ''Unobserved confounding'')
          (threatLoop THREAT_DEFINITIONS st m f []) =
   emitRisk threat_unobserved_confounding st m f"
  by (simp add: threatLoop_append filter_concat filter_emitRisk comp_def THREAT_DEFINITIONS_def
          threat_names)

lemma filter_name_identifyThreats:
  "filter (\<lambda>r. risk r = ''Unobserved confounding'') (identifyThreats st m f) =
   emitRisk threat_unobserved_confounding st m f"
proof -
  have len: "length (emitRisk threat_unobserved_confounding st m f) \<le> 1"
    by (simp add: emitRisk_def split: option.splits)
  have "filter (\<lambda>r. risk r = ''Unobserved confounding'') (identifyThreats st m f) =
        sort_key (\<lambda>r. severityOrder (severity r)) (emitRisk threat_unobserved_confounding st m f)"
    unfolding identifyThreats_def filter_sort filter_name_threatLoop ..
  then show ?thesis
    using sort_key_short [OF len] by simp
qed

lemma identifyThreats_cohort_noFeatures:
  "map (\<lambda>r. (risk r, severity r))
     (identifyThreats observational_cohort selection_on_observables noFeatures) =
   [(''Selection bias'', high), (''Unobserved confounding'', high),
    (''Attrition bias'', medium), (''Measurement error'', medium),
    (''Multiple hypothesis testing'', medium), (''Limited generalizability'', medium)]"
  by (simp add: identifyThreats_def THREAT_DEFINITIONS_def threat_defs noFeatures_def
        severityOrder_def sampleAbove10000_def)

text \<open>
  C3. For every study type, method and feature record, the list returned by
  \<open>identifyThreats\<close> is sorted by descending severity: no medium item stands before a
  high one, no low item before a medium or a high one. The sort is stable: the items of
  each severity are those the loop pushed, in the order it pushed them, and their names
  appear in the order of the catalogue \<open>THREAT_DEFINITIONS\<close> (whose names are pairwise
  distinct).
\<close>

theorem identifyThreats_sorted_stable:
  "sorted (map (\<lambda>r. severityOrder (severity r)) (identifyThreats st m f)) \<and>
   (\<forall>i j. i < j \<and> j < length (identifyThreats st m f) \<longrightarrow>
      \<not> (severity (identifyThreats st m f ! i) = medium \<and>
         severity (identifyThreats st m f ! j) = high) \<and>
      \<not> (severity (identifyThreats st m f ! i) = low \<and>
         severity (identifyThreats st m f ! j) = medium) \<and>
      \<not> (severity (identifyThreats st m f ! i) = low \<and>
         severity (identifyThreats st m f ! j) = high)) \<and>
   (\<forall>s. filter (\<lambda>r. severity r = s) (identifyThreats st m f) =
        filter (\<lambda>r. severity r = s) (threatLoop THREAT_DEFINITIONS st m f [])) \<and>
   (\<forall>s. subseq (map risk (filter (\<lambda>r. severity r = s) (identifyThreats st m f)))
               (map name THREAT_DEFINITIONS)) \<and>
   distinct (map name THREAT_DEFINITIONS)"
proof (intro conjI allI impI)
  show srt: "sorted (map (\<lambda>r. severityOrder (severity r)) (identifyThreats st m f))"
    by (rule sorted_identifyThreats)
  show "distinct (map name THREAT_DEFINITIONS)" by (rule distinct_names)
  show "filter (\<lambda>r. severity r = s) (identifyThreats st m f) =
        filter (\<lambda>r. severity r = s) (threatLoop THREAT_DEFINITIONS st m f [])" for s
    by (rule stable_identifyThreats)
  show "subseq (map risk (filter (\<lambda>r. severity r = s) (identifyThreats st m f)))
               (map name THREAT_DEFINITIONS)" for s
  proof -
    have "subseq (map risk (filter (\<lambda>r. severity r = s)
                    (threatLoop THREAT_DEFINITIONS st m f [])))
                 (map risk (threatLoop THREAT_DEFINITIONS st m f []))"
      by (simp add: subseq_map)
    then show ?thesis
      using subseq_names [of st m f] by (simp add: stable_identifyThreats)
  qed
  fix i j assume ij: "i < j \<and> j < length (identifyThreats st m f)"
  then have "severityOrder (severity (identifyThreats st m f ! i)) \<le>
             severityOrder (severity (identifyThreats st m f ! j))"
    using srt by (simp add: sorted_iff_nth_mono)
  then show "\<not> (severity (identifyThreats st m f ! i) = medium \<and>
         severity (identifyThreats st m f ! j) = high)"
     and "\<not> (severity (identifyThreats st m f ! i) = low \<and>
         severity (identifyThreats st m f ! j) = medium)"
     and "\<not> (severity (identifyThreats st m f ! i) = low \<and>
         severity (identifyThreats st m f ! j) = high)"
    by (auto simp: severityOrder_def)
qed

theorem identifyThreats_sorted_stable_witness:
  "(1::nat) < 2 \<and>
   2 < length (identifyThreats observational_cohort selection_on_observables noFeatures) \<and>
   map (\<lambda>r. (risk r, severity r))
     (identifyThreats observational_cohort selection_on_observables noFeatures) =
   [(''Selection bias'', high), (''Unobserved confounding'', high),
    (''Attrition bias'', medium), (''Measurement error'', medium),
    (''Multiple hypothesis testing'', medium), (''Limited generalizability'', medium)] \<and>
   \<not> (severity (identifyThreats observational_cohort selection_on_observables noFeatures ! 1)
        = medium \<and>
      severity (identifyThreats observational_cohort selection_on_observables noFeatures ! 2)
        = high)"
proof -
  have len: "length (identifyThreats observational_cohort selection_on_observables noFeatures) = 6"
    using arg_cong [OF identifyThreats_cohort_noFeatures, of length] by simp
  have "(1::nat) < 2 \<and>
        2 < length (identifyThreats observational_cohort selection_on_observables noFeatures)"
    by (simp add: len)
  then show ?thesis
    using identifyThreats_sorted_stable
            [of observational_cohort selection_on_observables noFeatures]
          identifyThreats_cohort_noFeatures
    by blast
qed

text \<open>
  C6. For the study types observational cohort, cross-sectional, case-control and
  quasi-experimental matching, and any method (the threat has no excluded methods),
  \<open>identifyThreats\<close> returns exactly one item named "Unobserved confounding"; its severity
  is high without a sensitivity analysis and medium with one. For every other study
  type it returns no item of that name.
\<close>

theorem unobserved_confounding_emitted:
  "(st \<in> {observational_cohort, observational_cross_sectional, observational_case_control,
           quasi_experimental_matching} \<longrightarrow>
      filter (\<lambda>r. risk r = ''Unobserved confounding'') (identifyThreats st m f) =
        [\<lparr> risk = ''Unobserved confounding'',
           severity = (if hasSensitivityAnalysis f then medium else high),
           reasoning = (if hasSensitivityAnalysis f
             then ''Sensitivity analysis to unobservables conducted (e.g., Oster, Rosenbaum bounds).''
             else ''Observational design cannot rule out unobserved confounders.'') \<rparr>]) \<and>
   (st \<notin> {observational_cohort, observational_cross_sectional, observational_case_control,
           quasi_experimental_matching} \<longrightarrow>
      filter (\<lambda>r. risk r = ''Unobserved confounding'') (identifyThreats st m f) = [])"
  unfolding filter_name_identifyThreats
  by (simp add: emitRisk_def threat_unobserved_confounding_def)

theorem unobserved_confounding_emitted_witness:
  "observational_cohort \<in> {observational_cohort, observational_cross_sectional,
      observational_case_control, quasi_experimental_matching} \<and>
   map (\<lambda>r. (risk r, severity r))
     (filter (\<lambda>r. risk r = ''Unobserved confounding'')
        (identifyThreats observational_cohort selection_on_observables noFeatures)) =
     [(''Unobserved confounding'', high)] \<and>
   map (\<lambda>r. (risk r, severity r))
     (filter (\<lambda>r. risk r = ''Unobserved confounding'')
        (identifyThreats quasi_experimental_matching propensity_score_matching
           (noFeatures\<lparr>hasMatchingPSM := True, hasSensitivityAnalysis := True\<rparr>))) =
     [(''Unobserved confounding'', medium)] \<and>
   rct \<notin> {observational_cohort, observational_cross_sectional,
      observational_case_control, quasi_experimental_matching} \<and>
   filter (\<lambda>r. risk r = ''Unobserved confounding'')
     (identifyThreats rct randomization noFeatures) = []"
  using unobserved_confounding_emitted [of observational_cohort selection_on_observables noFeatures]
        unobserved_confounding_emitted [of quasi_experimental_matching propensity_score_matching
           "noFeatures\<lparr>hasMatchingPSM := True, hasSensitivityAnalysis := True\<rparr>"]
        unobserved_confounding_emitted [of rct randomization noFeatures]
  by (simp add: noFeatures_def)

section \<open>Arithmetic of the scores\<close>

lemma fl_of_int: "\<bar>n\<bar> \<le> 2 ^ 53 \<Longrightarrow> fl (of_int n) = of_int n"
  using fl_exact [of n 0] by simp

lemma fl_half_int: "\<bar>n\<bar> \<le> 2 ^ 53 \<Longrightarrow> fl (of_int n / 2) = of_int n / 2"
  using fl_exact [of n "-1"] by (simp add: power_int_minus field_simps)

lemma fl_small_values:
  "fl 1 = 1" "fl 2 = 2" "fl 3 = 3" "fl 4 = 4" "fl 5 = 5"
  "fl (1/2) = 1/2" "fl (3/2) = 3/2" "fl (5/2) = 5/2" "fl (7/2) = 7/2" "fl (9/2) = 9/2"
  "fl 20 = 20" "fl 25 = 25" "fl 30 = 30" "fl 35 = 35" "fl 40 = 40" "fl 45 = 45" "fl 50 = 50"
  using fl_of_int [of 1] fl_of_int [of 2] fl_of_int [of 3] fl_of_int [of 4] fl_of_int [of 5]
    fl_half_int [of 1] fl_half_int [of 3] fl_half_int [of 5] fl_half_int [of 7] fl_half_int [of 9]
    fl_of_int [of 20] fl_of_int [of 25] fl_of_int [of 30] fl_of_int [of 35] fl_of_int [of 40]
    fl_of_int [of 45] fl_of_int [of 50]
  by simp_all

lemmas js_arith = lit_def jsAdd_def jsSub_def jsMul_def jsDiv_def

lemma mathRound_mono: "x \<le> y \<Longrightarrow> mathRound x \<le> mathRound y"
  by (simp add: mathRound_def floor_mono)

lemma mathRound_of_int [simp]: "mathRound (of_int n) = of_int n"
  by (simp add: mathRound_def floor_eq_iff)

lemma mathRound_numeral [simp]: "mathRound (numeral n) = numeral n"
  using mathRound_of_int [of "numeral n"] by simp

lemma mathRound_0 [simp]: "mathRound 0 = 0"
  using mathRound_of_int [of 0] by simp

lemma lit_nonneg: "0 \<le> x \<Longrightarrow> 0 \<le> lit x"
  by (simp add: lit_def fl_nonneg)

lemma lit_representable: "fl (lit x) = lit x"
  by (simp add: lit_def fl_idem)

lemma jsAdd_nonneg: "0 \<le> a \<Longrightarrow> 0 \<le> b \<Longrightarrow> 0 \<le> jsAdd a b"
  by (simp add: jsAdd_def fl_nonneg)

lemma jsMul_nonneg: "0 \<le> a \<Longrightarrow> 0 \<le> b \<Longrightarrow> 0 \<le> jsMul a b"
  by (simp add: jsMul_def fl_nonneg)

text \<open>The closing steps of every 0--5 score: clamp, then round to one decimal.\<close>

lemma clampRound_bounds:
  "0 \<le> jsDiv (mathRound (jsMul (max 0 (min 5 s)) 10)) 10 \<and>
   jsDiv (mathRound (jsMul (max 0 (min 5 s)) 10)) 10 \<le> 5"
proof -
  define c where "c = max 0 (min 5 s)"
  have c: "0 \<le> c" "c \<le> 5" by (simp_all add: c_def)
  have m: "0 \<le> jsMul c 10" "jsMul c 10 \<le> 50"
    using fl_mono [of 0 "c * 10"] fl_mono [of "c * 10" 50] c
    by (simp_all add: jsMul_def fl_small_values)
  have r: "0 \<le> mathRound (jsMul c 10)" "mathRound (jsMul c 10) \<le> 50"
    using mathRound_mono [OF m(1)] mathRound_mono [OF m(2)] by simp_all
  have "0 \<le> jsDiv (mathRound (jsMul c 10)) 10 \<and> jsDiv (mathRound (jsMul c 10)) 10 \<le> 5"
    using fl_mono [of 0 "mathRound (jsMul c 10) / 10"]
      fl_mono [of "mathRound (jsMul c 10) / 10" 5] r
    by (simp add: jsDiv_def fl_small_values)
  then show ?thesis by (simp add: c_def)
qed

lemma clampRound_mono:
  assumes "s \<le> s'"
  shows "jsDiv (mathRound (jsMul (max 0 (min 5 s)) 10)) 10 \<le>
         jsDiv (mathRound (jsMul (max 0 (min 5 s')) 10)) 10"
proof -
  have "max 0 (min 5 s) \<le> max 0 (min 5 s')" using assms by auto
  then have "max 0 (min 5 s) * 10 \<le> max 0 (min 5 s') * 10" by simp
  then have "jsMul (max 0 (min 5 s)) 10 \<le> jsMul (max 0 (min 5 s')) 10"
    unfolding jsMul_def by (rule fl_mono)
  then have "mathRound (jsMul (max 0 (min 5 s)) 10) \<le> mathRound (jsMul (max 0 (min 5 s')) 10)"
    by (rule mathRound_mono)
  then have "mathRound (jsMul (max 0 (min 5 s)) 10) / 10 \<le>
             mathRound (jsMul (max 0 (min 5 s')) 10) / 10" by simp
  then show ?thesis unfolding jsDiv_def by (rule fl_mono)
qed

text \<open>The closing steps give a score in the sense of \<open>isScore\<close>.\<close>

lemma oneDecimal_tenth:
  assumes "0 \<le> n" "n \<le> 50"
  shows "oneDecimal (fl (of_int n / 10)) = of_int n / 10"
proof -
  have "\<bar>(of_int n / 10 :: rat)\<bar> \<le> 8" using assms by simp
  then have c: "\<bar>fl (of_int n / 10) - of_int n / 10\<bar> \<le> 1/1125899906842624" by (rule fl_close)
  have "\<lfloor>fl (of_int n / 10) * 10 + 1/2\<rfloor> = n"
    by (rule floor_unique) (use c in linarith)+
  then show ?thesis by (simp add: oneDecimal_def)
qed

lemma clampRound_isScore: "isScore (jsDiv (mathRound (jsMul (max 0 (min 5 s)) 10)) 10)"
proof -
  define c where "c = max 0 (min 5 s)"
  have c: "0 \<le> c" "c \<le> 5" by (simp_all add: c_def)
  have m: "0 \<le> jsMul c 10" "jsMul c 10 \<le> 50"
    using fl_mono [of 0 "c * 10"] fl_mono [of "c * 10" 50] c
    by (simp_all add: jsMul_def fl_small_values)
  define n where "n = \<lfloor>jsMul c 10 + 1/2\<rfloor>"
  have n: "0 \<le> n" "n \<le> 50" unfolding n_def using m by linarith+
  have x: "jsDiv (mathRound (jsMul c 10)) 10 = fl (of_int n / 10)"
    by (simp add: jsDiv_def mathRound_def n_def)
  have "isScore (fl (of_int n / 10))"
    unfolding isScore_def oneDecimal_tenth [OF n] lit_def using n by simp
  then show ?thesis unfolding x [symmetric] c_def .
qed

lemma isScore_close:
  assumes "isScore x"
  shows "\<bar>x - oneDecimal x\<bar> \<le> 1/1125899906842624"
proof -
  have "\<bar>oneDecimal x\<bar> \<le> 8" using assms by (simp add: isScore_def)
  then have "\<bar>fl (oneDecimal x) - oneDecimal x\<bar> \<le> 1/1125899906842624" by (rule fl_close)
  moreover have "x = fl (oneDecimal x)" using assms by (simp add: isScore_def lit_def)
  ultimately show ?thesis by simp
qed

text \<open>A product of a score and a weight, and a sum of two such terms, in doubles.\<close>

lemma jsMul_close:
  assumes x: "\<bar>x - a\<bar> \<le> 1/1125899906842624" and a: "0 \<le> a" "a \<le> 5"
    and w: "\<bar>w - b\<bar> \<le> 1/1125899906842624" and b: "0 \<le> b" "b \<le> 1/2"
  shows "\<bar>jsMul x w - a * b\<bar> \<le> 7/1125899906842624"
proof -
  have wb: "\<bar>w\<bar> \<le> 1" using w b by linarith
  have xb: "\<bar>x\<bar> \<le> 6" using x a by linarith
  have 1: "\<bar>(x - a) * w\<bar> \<le> 1/1125899906842624 * 1"
    unfolding abs_mult using x wb by (intro mult_mono) simp_all
  have 2: "\<bar>a * (w - b)\<bar> \<le> 5 * (1/1125899906842624)"
    unfolding abs_mult using w a by (intro mult_mono) simp_all
  have e: "x * w - a * b = (x - a) * w + a * (w - b)" by (simp add: algebra_simps)
  have 3: "\<bar>x * w - a * b\<bar> \<le> 6/1125899906842624" unfolding e using 1 2 by linarith
  have "\<bar>x * w\<bar> \<le> 6 * 1" unfolding abs_mult using xb wb by (intro mult_mono) simp_all
  then have "\<bar>x * w\<bar> \<le> 8" by simp
  then have 4: "\<bar>fl (x * w) - x * w\<bar> \<le> 1/1125899906842624" by (rule fl_close)
  show ?thesis unfolding jsMul_def using 3 4 by linarith
qed

lemma jsAdd_close:
  assumes p: "\<bar>p - a\<bar> \<le> d1" and q: "\<bar>q - b\<bar> \<le> d2"
    and ab: "\<bar>a + b\<bar> \<le> 6" and d: "d1 + d2 \<le> 1"
  shows "\<bar>jsAdd p q - (a + b)\<bar> \<le> d1 + d2 + 1/1125899906842624"
proof -
  have "\<bar>p + q\<bar> \<le> 8" using p q ab d by linarith
  then have "\<bar>fl (p + q) - (p + q)\<bar> \<le> 1/1125899906842624" by (rule fl_close)
  then show ?thesis unfolding jsAdd_def using p q by linarith
qed

lemma lit_close: "\<bar>x\<bar> \<le> 8 \<Longrightarrow> \<bar>lit x - x\<bar> \<le> 1/1125899906842624"
  unfolding lit_def by (rule fl_close)


section \<open>Properties of the causal-strength score\<close>

text \<open>The score of the loop does not depend on the list of applied modifiers.\<close>

lemma modifierLoop_score:
  "fst (modifierLoop fmt ms f (s, a)) = applyModifiers ms f s"
  by (induction ms arbitrary: s a) (simp_all add: Let_def)

lemma modifierLoop_cong:
  "(\<And>m. m \<in> set ms \<Longrightarrow> feature m f = feature m g) \<Longrightarrow>
   modifierLoop fmt ms f (s, a) = modifierLoop fmt ms g (s, a)"
  by (induction ms arbitrary: s a) (simp_all add: Let_def)

lemma assessCausalStrength_score:
  "cscore (assessCausalStrength fmt m f) =
     jsDiv (mathRound (jsMul (max 0 (min 5
        (applyModifiers (strengthModifiers (METHOD_RUBRICS m)) f
           (baseStrength (METHOD_RUBRICS m))))) 10)) 10"
  unfolding assessCausalStrength_def Let_def case_prod_beta
  by (simp only: CausalAssessment.select_convs modifierLoop_score)

lemma assessCausalStrength_bounds:
  "0 \<le> cscore (assessCausalStrength fmt m f) \<and> cscore (assessCausalStrength fmt m f) \<le> 5"
  unfolding assessCausalStrength_score by (rule clampRound_bounds)

lemma causal_isScore: "isScore (cscore (assessCausalStrength fmt m f))"
  unfolding assessCausalStrength_score by (rule clampRound_isScore)

lemma applyModifiers_append:
  "applyModifiers (xs @ ys) f s = applyModifiers ys f (applyModifiers xs f s)"
  by (induction xs arbitrary: s) (simp_all add: Let_def)

lemma applyModifiers_mono:
  "s \<le> s' \<Longrightarrow> applyModifiers ms f s \<le> applyModifiers ms f s'"
proof (induction ms arbitrary: s s')
  case Nil
  then show ?case by simp
next
  case (Cons m ms)
  have "jsAdd s (modifier m) \<le> jsAdd s' (modifier m)"
    unfolding jsAdd_def using Cons.prems by (intro fl_mono) simp
  then show ?case using Cons by (simp add: Let_def)
qed

lemma applyModifiers_representable:
  "fl s = s \<Longrightarrow> fl (applyModifiers ms f s) = applyModifiers ms f s"
  by (induction ms arbitrary: s) (simp_all add: Let_def jsAdd_def fl_idem)

lemma applyModifiers_cong:
  "(\<And>m. m \<in> set ms \<Longrightarrow> feature m f = feature m g) \<Longrightarrow>
   applyModifiers ms f s = applyModifiers ms g s"
  by (induction ms arbitrary: s) (simp_all add: Let_def)

lemma jsAdd_increase:
  assumes "fl s = s" "0 \<le> d"
  shows "s \<le> jsAdd s d"
proof -
  have "fl s \<le> fl (s + d)" using assms(2) by (intro fl_mono) simp
  then show ?thesis by (simp add: jsAdd_def assms(1))
qed

text \<open>Switching on the flag of one modifier with a non-negative delta never lowers the sum.\<close>

lemma applyModifiers_flag_mono:
  assumes pre: "\<And>x. x \<in> set pre \<Longrightarrow> feature x f1 = feature x f2"
    and post: "\<And>x. x \<in> set post \<Longrightarrow> feature x f1 = feature x f2"
    and off: "\<not> feature m f1" and on: "feature m f2"
    and delta: "0 \<le> modifier m" and rep: "fl s = s"
  shows "applyModifiers (pre @ m # post) f1 s \<le> applyModifiers (pre @ m # post) f2 s"
proof -
  define s1 where "s1 = applyModifiers pre f1 s"
  have s1': "applyModifiers pre f2 s = s1"
    unfolding s1_def by (rule applyModifiers_cong [symmetric]) (rule pre)
  have rep1: "fl s1 = s1" unfolding s1_def using rep by (rule applyModifiers_representable)
  have "applyModifiers (pre @ m # post) f1 s = applyModifiers post f1 s1"
    using off by (simp add: applyModifiers_append s1_def Let_def)
  also have "\<dots> = applyModifiers post f2 s1"
    by (rule applyModifiers_cong) (rule post)
  also have "\<dots> \<le> applyModifiers post f2 (jsAdd s1 (modifier m))"
    by (rule applyModifiers_mono) (rule jsAdd_increase [OF rep1 delta])
  also have "\<dots> = applyModifiers (pre @ m # post) f2 s"
    using on by (simp add: applyModifiers_append s1' Let_def)
  finally show ?thesis .
qed

text \<open>
  C5. For the method randomization, a feature record with \<open>hasBalanceTests\<close> set scores
  at least as high as the same record with the flag cleared, and likewise for
  \<open>hasPreRegistration\<close>: every other modifier reads the same flags in both records, the
  delta of the switched modifier is positive, and rounding to a double, clamping and
  rounding to one decimal are monotone.
\<close>

theorem causal_strength_monotone:
  "cscore (assessCausalStrength fmt randomization (f\<lparr>hasBalanceTests := False\<rparr>)) \<le>
   cscore (assessCausalStrength fmt randomization (f\<lparr>hasBalanceTests := True\<rparr>)) \<and>
   cscore (assessCausalStrength fmt randomization (f\<lparr>hasPreRegistration := False\<rparr>)) \<le>
   cscore (assessCausalStrength fmt randomization (f\<lparr>hasPreRegistration := True\<rparr>))"
proof
  let ?mB = "\<lparr> feature = hasBlinding, modifier = lit (3/10), description = ''Blinding present'' \<rparr>"
  let ?mBal = "\<lparr> feature = hasBalanceTests, modifier = lit (2/10), description = ''Balance tests reported'' \<rparr>"
  let ?mPow = "\<lparr> feature = hasPowerCalculation, modifier = lit (2/10), description = ''Power calculation'' \<rparr>"
  let ?mAtt = "\<lparr> feature = hasAttritionDiscussion, modifier = lit (1/10), description = ''Attrition addressed'' \<rparr>"
  let ?mPre = "\<lparr> feature = hasPreRegistration, modifier = lit (2/10), description = ''Pre-registered'' \<rparr>"
  let ?mS = "\<lparr> feature = sampleBelow 100, modifier = - lit (5/10),
         description = ''Small sample size (<100)'' \<rparr>"
  let ?mVS = "\<lparr> feature = sampleBelow 30, modifier = - lit (5/10),
         description = ''Very small sample size (<30)'' \<rparr>"
  have mods: "strengthModifiers (METHOD_RUBRICS randomization) =
                [?mB] @ ?mBal # [?mPow, ?mAtt, ?mPre, ?mS, ?mVS]"
             "strengthModifiers (METHOD_RUBRICS randomization) =
                [?mB, ?mBal, ?mPow, ?mAtt] @ ?mPre # [?mS, ?mVS]"
    by (simp_all add: METHOD_RUBRICS_def rubric_randomization_def)
  have base: "fl (baseStrength (METHOD_RUBRICS randomization)) =
              baseStrength (METHOD_RUBRICS randomization)"
    by (simp add: METHOD_RUBRICS_def rubric_randomization_def lit_representable)
  have "applyModifiers (strengthModifiers (METHOD_RUBRICS randomization))
          (f\<lparr>hasBalanceTests := False\<rparr>) (baseStrength (METHOD_RUBRICS randomization)) \<le>
        applyModifiers (strengthModifiers (METHOD_RUBRICS randomization))
          (f\<lparr>hasBalanceTests := True\<rparr>) (baseStrength (METHOD_RUBRICS randomization))"
    unfolding mods(1)
    by (rule applyModifiers_flag_mono [OF _ _ _ _ _ base])
       (auto simp: sampleBelow_def lit_nonneg)
  then show "cscore (assessCausalStrength fmt randomization (f\<lparr>hasBalanceTests := False\<rparr>)) \<le>
             cscore (assessCausalStrength fmt randomization (f\<lparr>hasBalanceTests := True\<rparr>))"
    unfolding assessCausalStrength_score by (rule clampRound_mono)
  have "applyModifiers (strengthModifiers (METHOD_RUBRICS randomization))
          (f\<lparr>hasPreRegistration := False\<rparr>) (baseStrength (METHOD_RUBRICS randomization)) \<le>
        applyModifiers (strengthModifiers (METHOD_RUBRICS randomization))
          (f\<lparr>hasPreRegistration := True\<rparr>) (baseStrength (METHOD_RUBRICS randomization))"
    unfolding mods(2)
    by (rule applyModifiers_flag_mono [OF _ _ _ _ _ base])
       (auto simp: sampleBelow_def lit_nonneg)
  then show "cscore (assessCausalStrength fmt randomization (f\<lparr>hasPreRegistration := False\<rparr>)) \<le>
             cscore (assessCausalStrength fmt randomization (f\<lparr>hasPreRegistration := True\<rparr>))"
    unfolding assessCausalStrength_score by (rule clampRound_mono)
qed

lemma causal_strength_values:
  "cscore (assessCausalStrength fmt randomization noFeatures) = lit (45/10)"
  "cscore (assessCausalStrength fmt randomization (noFeatures\<lparr>hasBalanceTests := True\<rparr>)) = lit (47/10)"
  "cscore (assessCausalStrength fmt randomization (noFeatures\<lparr>hasPreRegistration := True\<rparr>)) = lit (47/10)"
  unfolding assessCausalStrength_score by code_simp+

theorem causal_strength_monotone_witness:
  "cscore (assessCausalStrength referenceFormat randomization (noFeatures\<lparr>hasBalanceTests := False\<rparr>)) = lit (45/10) \<and>
   cscore (assessCausalStrength referenceFormat randomization (noFeatures\<lparr>hasBalanceTests := True\<rparr>)) = lit (47/10) \<and>
   cscore (assessCausalStrength referenceFormat randomization (noFeatures\<lparr>hasPreRegistration := False\<rparr>)) = lit (45/10) \<and>
   cscore (assessCausalStrength referenceFormat randomization (noFeatures\<lparr>hasPreRegistration := True\<rparr>)) = lit (47/10) \<and>
   cscore (assessCausalStrength referenceFormat randomization (noFeatures\<lparr>hasBalanceTests := False\<rparr>)) \<le>
   cscore (assessCausalStrength referenceFormat randomization (noFeatures\<lparr>hasBalanceTests := True\<rparr>)) \<and>
   cscore (assessCausalStrength referenceFormat randomization (noFeatures\<lparr>hasPreRegistration := False\<rparr>)) \<le>
   cscore (assessCausalStrength referenceFormat randomization (noFeatures\<lparr>hasPreRegistration := True\<rparr>))"
proof -
  have a: "noFeatures\<lparr>hasBalanceTests := False\<rparr> = noFeatures"
          "noFeatures\<lparr>hasPreRegistration := False\<rparr> = noFeatures"
    by (simp_all add: noFeatures_def)
  show ?thesis
    using causal_strength_monotone [of referenceFormat noFeatures]
      causal_strength_values [of referenceFormat]
    by (simp only: a simp_thms)
qed

section \<open>Properties of the component scores\<close>

lemma Let_pres: "(\<And>x. Q (f x)) \<Longrightarrow> Q (Let a f)"
  by (simp add: Let_def)

lemma Let_inv: "P a \<Longrightarrow> (\<And>x. P x \<Longrightarrow> Q (f x)) \<Longrightarrow> Q (Let a f)"
  by (simp add: Let_def)

lemma prod_pres: "(\<And>a b. Q (f a b)) \<Longrightarrow> Q (case_prod f p)"
  by (cases p) simp

text \<open>
  Whatever the running score is before the closing steps, the result lies in \<open>[0,5]\<close>:
  the bindings before them are stripped one by one.
\<close>

lemma externalValidity_bounds: "scoreInRange (calculateExternalValidity f)"
  unfolding calculateExternalValidity_def
  apply (rule Let_pres [where Q = scoreInRange])
  apply (rule Let_pres [where Q = scoreInRange])
  apply (rule Let_pres [where Q = scoreInRange])
  apply (rule prod_pres [where Q = scoreInRange])
  apply (rule Let_pres [where Q = scoreInRange])
  apply (rule prod_pres [where Q = scoreInRange])
  apply (rule Let_pres [where Q = scoreInRange])
  apply (rule prod_pres [where Q = scoreInRange])
  apply (simp only: Let_def scoreInRange_def ScoreNotes.select_convs clampRound_bounds simp_thms)
  done

lemma measurementQuality_bounds: "scoreInRange (calculateMeasurementQuality f)"
  unfolding calculateMeasurementQuality_def
  apply (rule Let_pres [where Q = scoreInRange])
  apply (rule Let_pres [where Q = scoreInRange])
  apply (rule Let_pres [where Q = scoreInRange])
  apply (rule prod_pres [where Q = scoreInRange])
  apply (rule Let_pres [where Q = scoreInRange])
  apply (rule prod_pres [where Q = scoreInRange])
  apply (rule Let_pres [where Q = scoreInRange])
  apply (rule prod_pres [where Q = scoreInRange])
  apply (rule Let_pres [where Q = scoreInRange])
  apply (rule prod_pres [where Q = scoreInRange])
  apply (rule Let_pres [where Q = scoreInRange])
  apply (simp only: Let_def scoreInRange_def ScoreNotes.select_convs clampRound_bounds simp_thms)
  done

lemma transparency_bounds: "tscoreInRange (calculateTransparency f)"
  unfolding calculateTransparency_def
  apply (rule Let_pres [where Q = tscoreInRange])
  apply (rule Let_pres [where Q = tscoreInRange])
  apply (rule Let_pres [where Q = tscoreInRange])
  apply (rule prod_pres [where Q = tscoreInRange])
  apply (rule Let_pres [where Q = tscoreInRange])
  apply (rule prod_pres [where Q = tscoreInRange])
  apply (rule Let_pres [where Q = tscoreInRange])
  apply (rule prod_pres [where Q = tscoreInRange])
  apply (rule Let_pres [where Q = tscoreInRange])
  apply (rule prod_pres [where Q = tscoreInRange])
  apply (rule Let_pres [where Q = tscoreInRange])
  apply (rule prod_pres [where Q = tscoreInRange])
  apply (rule Let_pres [where Q = tscoreInRange])
  apply (rule prod_pres [where Q = tscoreInRange])
  apply (rule Let_pres [where Q = tscoreInRange])
  apply (rule prod_pres [where Q = tscoreInRange])
  apply (simp only: Let_def tscoreInRange_def ScoreSignals.select_convs clampRound_bounds simp_thms)
  done

lemma externalValidity_isScore: "isScore (score (calculateExternalValidity f))"
  unfolding calculateExternalValidity_def
  apply (rule Let_pres [where Q = "\<lambda>r. isScore (score r)"])
  apply (rule Let_pres [where Q = "\<lambda>r. isScore (score r)"])
  apply (rule Let_pres [where Q = "\<lambda>r. isScore (score r)"])
  apply (rule prod_pres [where Q = "\<lambda>r. isScore (score r)"])
  apply (rule Let_pres [where Q = "\<lambda>r. isScore (score r)"])
  apply (rule prod_pres [where Q = "\<lambda>r. isScore (score r)"])
  apply (rule Let_pres [where Q = "\<lambda>r. isScore (score r)"])
  apply (rule prod_pres [where Q = "\<lambda>r. isScore (score r)"])
  apply (simp only: Let_def ScoreNotes.select_convs clampRound_isScore)
  done

lemma measurementQuality_isScore: "isScore (score (calculateMeasurementQuality f))"
  unfolding calculateMeasurementQuality_def
  apply (rule Let_pres [where Q = "\<lambda>r. isScore (score r)"])
  apply (rule Let_pres [where Q = "\<lambda>r. isScore (score r)"])
  apply (rule Let_pres [where Q = "\<lambda>r. isScore (score r)"])
  apply (rule prod_pres [where Q = "\<lambda>r. isScore (score r)"])
  apply (rule Let_pres [where Q = "\<lambda>r. isScore (score r)"])
  apply (rule prod_pres [where Q = "\<lambda>r. isScore (score r)"])
  apply (rule Let_pres [where Q = "\<lambda>r. isScore (score r)"])
  apply (rule prod_pres [where Q = "\<lambda>r. isScore (score r)"])
  apply (rule Let_pres [where Q = "\<lambda>r. isScore (score r)"])
  apply (rule prod_pres [where Q = "\<lambda>r. isScore (score r)"])
  apply (rule Let_pres [where Q = "\<lambda>r. isScore (score r)"])
  apply (simp only: Let_def ScoreNotes.select_convs clampRound_isScore)
  done

lemma transparency_isScore: "isScore (tscore (calculateTransparency f))"
  unfolding calculateTransparency_def
  apply (rule Let_pres [where Q = "\<lambda>r. isScore (tscore r)"])
  apply (rule Let_pres [where Q = "\<lambda>r. isScore (tscore r)"])
  apply (rule Let_pres [where Q = "\<lambda>r. isScore (tscore r)"])
  apply (rule prod_pres [where Q = "\<lambda>r. isScore (tscore r)"])
  apply (rule Let_pres [where Q = "\<lambda>r. isScore (tscore r)"])
  apply (rule prod_pres [where Q = "\<lambda>r. isScore (tscore r)"])
  apply (rule Let_pres [where Q = "\<lambda>r. isScore (tscore r)"])
  apply (rule prod_pres [where Q = "\<lambda>r. isScore (tscore r)"])
  apply (rule Let_pres [where Q = "\<lambda>r. isScore (tscore r)"])
  apply (rule prod_pres [where Q = "\<lambda>r. isScore (tscore r)"])
  apply (rule Let_pres [where Q = "\<lambda>r. isScore (tscore r)"])
  apply (rule prod_pres [where Q = "\<lambda>r. isScore (tscore r)"])
  apply (rule Let_pres [where Q = "\<lambda>r. isScore (tscore r)"])
  apply (rule prod_pres [where Q = "\<lambda>r. isScore (tscore r)"])
  apply (rule Let_pres [where Q = "\<lambda>r. isScore (tscore r)"])
  apply (rule prod_pres [where Q = "\<lambda>r. isScore (tscore r)"])
  apply (simp only: Let_def ScoreSignals.select_convs clampRound_isScore)
  done

lemma addIf_nonneg: "0 \<le> c \<Longrightarrow> 0 \<le> x \<Longrightarrow> 0 \<le> (if b then jsAdd c (lit x) else c)"
  by (simp add: jsAdd_nonneg lit_nonneg)

lemma confidence_final:
  assumes "0 \<le> c"
  shows "0 \<le> min 1 (jsDiv (mathRound (jsMul c 100)) 100) \<and>
         min 1 (jsDiv (mathRound (jsMul c 100)) 100) \<le> 1"
proof -
  have "0 \<le> jsMul c 100" using assms by (simp add: jsMul_nonneg)
  then have "0 \<le> mathRound (jsMul c 100)" using mathRound_mono [of 0 "jsMul c 100"] by simp
  then have "0 \<le> jsDiv (mathRound (jsMul c 100)) 100" by (simp add: jsDiv_def fl_nonneg)
  then show ?thesis by simp
qed

text \<open>The running confidence never becomes negative: every step adds a non-negative double.\<close>

lemma confidence_bounds: "0 \<le> calculateConfidence f \<and> calculateConfidence f \<le> 1"
  unfolding calculateConfidence_def
  apply (rule Let_inv [where P = "\<lambda>c. 0 \<le> c" and Q = "\<lambda>r. 0 \<le> r \<and> r \<le> 1"])
   apply (simp add: lit_nonneg)
  apply (rule Let_pres [where Q = "\<lambda>r. 0 \<le> r \<and> r \<le> 1"])
  apply (rule Let_inv [where P = "\<lambda>c. 0 \<le> c" and Q = "\<lambda>r. 0 \<le> r \<and> r \<le> 1"])
   apply (simp add: jsAdd_nonneg jsMul_nonneg lit_nonneg)
  apply (rule Let_inv [where P = "\<lambda>c. 0 \<le> c" and Q = "\<lambda>r. 0 \<le> r \<and> r \<le> 1"])
   apply (rule addIf_nonneg, assumption, simp)
  apply (rule Let_inv [where P = "\<lambda>c. 0 \<le> c" and Q = "\<lambda>r. 0 \<le> r \<and> r \<le> 1"])
   apply (rule addIf_nonneg, assumption, simp)
  apply (rule Let_inv [where P = "\<lambda>c. 0 \<le> c" and Q = "\<lambda>r. 0 \<le> r \<and> r \<le> 1"])
   apply (rule addIf_nonneg, assumption, simp)
  apply (rule Let_inv [where P = "\<lambda>c. 0 \<le> c" and Q = "\<lambda>r. 0 \<le> r \<and> r \<le> 1"])
   apply (rule addIf_nonneg, assumption, simp)
  apply (rule Let_inv [where P = "\<lambda>c. 0 \<le> c" and Q = "\<lambda>r. 0 \<le> r \<and> r \<le> 1"])
   apply (rule addIf_nonneg, assumption, simp)
  apply (rule confidence_final, assumption)
  done

text \<open>The review flags decide the two review study types, which have the highest priorities.\<close>

lemma review_flags:
  "(detectStudyType f = systematic_review \<or> detectStudyType f = meta_analysis) =
   (isMetaAnalysis f \<or> isSystematicReview f)"
proof (cases "isMetaAnalysis f")
  case True
  then show ?thesis by (simp add: detectStudyType_unfold)
next
  case False
  show ?thesis
  proof (cases "isSystematicReview f")
    case True
    then show ?thesis using False by (simp add: detectStudyType_unfold)
  next
    case False
    then show ?thesis using \<open>\<not> isMetaAnalysis f\<close>
      by (simp add: detectStudyType_unfold)
  qed
qed

text \<open>
  C7. For every feature record, the external-validity score of the code, computed in
  doubles, is the value of the specification's formula in exact arithmetic: baseline 2.5;
  +1.0 for a sample of at least 10,000, otherwise +0.5 for at least 1,000, otherwise
  -0.5 for fewer than 100; +0.5 when external validity is discussed; +0.5 when the study
  is a systematic review or a meta-analysis; clamped to \<open>[0,5]\<close> and rounded to one
  decimal. (All intermediate values are multiples of one half, so no rounding error
  arises.)
\<close>

theorem externalValidity_formula:
  "score (calculateExternalValidity f) = spec_externalValidity f"
proof -
  consider (none) "sampleSizeNumeric f = None"
    | (large) n where "sampleSizeNumeric f = Some n" "n \<ge> 10000"
    | (moderate) n where "sampleSizeNumeric f = Some n" "n \<ge> 1000" "\<not> n \<ge> 10000"
    | (plain) n where "sampleSizeNumeric f = Some n" "\<not> n < 100" "\<not> n \<ge> 1000" "\<not> n \<ge> 10000"
    | (small) n where "sampleSizeNumeric f = Some n" "n < 100" "\<not> n \<ge> 1000" "\<not> n \<ge> 10000"
    by (cases "sampleSizeNumeric f") force+
  then show ?thesis
  proof cases
    case none
    then show ?thesis
      by (cases "hasExternalValidityDiscussion f"; cases "isMetaAnalysis f \<or> isSystematicReview f")
         (simp_all add: calculateExternalValidity_def spec_externalValidity_def review_flags
            Let_def js_arith fl_small_values floor_eq_iff)
  next
    case large
    then show ?thesis
      by (cases "hasExternalValidityDiscussion f"; cases "isMetaAnalysis f \<or> isSystematicReview f")
         (simp_all add: calculateExternalValidity_def spec_externalValidity_def review_flags
            Let_def js_arith fl_small_values floor_eq_iff)
  next
    case moderate
    then show ?thesis
      by (cases "hasExternalValidityDiscussion f"; cases "isMetaAnalysis f \<or> isSystematicReview f")
         (simp_all add: calculateExternalValidity_def spec_externalValidity_def review_flags
            Let_def js_arith fl_small_values floor_eq_iff)
  next
    case plain
    then show ?thesis
      by (cases "hasExternalValidityDiscussion f"; cases "isMetaAnalysis f \<or> isSystematicReview f")
         (simp_all add: calculateExternalValidity_def spec_externalValidity_def review_flags
            Let_def js_arith fl_small_values floor_eq_iff)
  next
    case small
    then show ?thesis
      by (cases "hasExternalValidityDiscussion f"; cases "isMetaAnalysis f \<or> isSystematicReview f")
         (simp_all add: calculateExternalValidity_def spec_externalValidity_def review_flags
            Let_def js_arith fl_small_values floor_eq_iff)
  qed
qed

lemma rctFeatures_study: "detectStudyType rctFeatures = rct"
  by (simp add: detectStudyType_unfold rctFeatures_def noFeatures_def)

lemma rctFeatures_method: "detectCausalMethod rctFeatures rct = randomization"
  by (simp add: detectCausalMethod_def methodMap_def)

lemma rctFeatures_causal:
  "cscore (assessCausalStrength fmt randomization rctFeatures) = lit (49/10)"
  unfolding assessCausalStrength_score by code_simp

lemma rctFeatures_scores:
  "score (calculateExternalValidity rctFeatures) = 3"
  "score (calculateMeasurementQuality rctFeatures) = 5/2"
  "tscore (calculateTransparency rctFeatures) = 5/2"
  "calculateConfidence rctFeatures = lit (65/100)"
  by code_simp+

theorem externalValidity_formula_witness:
  "score (calculateExternalValidity rctFeatures) = 3 \<and> spec_externalValidity rctFeatures = 3 \<and>
   score (calculateExternalValidity
            (noFeatures\<lparr>sampleSizeNumeric := Some 10000, isMetaAnalysis := True\<rparr>)) = 4 \<and>
   spec_externalValidity (noFeatures\<lparr>sampleSizeNumeric := Some 10000, isMetaAnalysis := True\<rparr>) = 4"
proof -
  have "score (calculateExternalValidity
            (noFeatures\<lparr>sampleSizeNumeric := Some 10000, isMetaAnalysis := True\<rparr>)) = 4"
    by code_simp
  then show ?thesis
    using externalValidity_formula [of rctFeatures]
      externalValidity_formula [of "noFeatures\<lparr>sampleSizeNumeric := Some 10000, isMetaAnalysis := True\<rparr>"]
      rctFeatures_scores(1)
    by simp
qed

section \<open>Properties of the overall grade and of the result\<close>

lemma count_filter: "count_list (map severity rs) s = length (filter (\<lambda>r. severity r = s) rs)"
  by (induction rs) simp_all

text \<open>
  The internal-validity score is exact in doubles: every intermediate value is a multiple
  of one half of small magnitude. (An array has fewer than \<open>2\<^sup>3\<^sup>2\<close> elements.)
\<close>

lemma internalScore_exact:
  fixes h m :: nat
  assumes "h + m \<le> 4294967296"
  shows "jsSub (jsSub 5 (jsMul (of_nat h) (lit (15/10)))) (jsMul (of_nat m) (lit (5/10))) =
         5 - (3/2) * of_nat h - (1/2) * of_nat m"
proof -
  have l1: "lit (15/10) = 3/2" using fl_half_int [of 3] by (simp add: lit_def)
  have l2: "lit (5/10) = 1/2" using fl_half_int [of 1] by (simp add: lit_def)
  have b: "int h \<le> 4294967296" "int m \<le> 4294967296" using assms by linarith+
  have e1: "of_nat h * (3/2) = (of_int (3 * int h) / 2 :: rat)" by simp
  have a1: "jsMul (of_nat h) (lit (15/10)) = of_int (3 * int h) / 2"
    unfolding jsMul_def l1 e1 by (rule fl_half_int) (use b in simp)
  have e2: "5 - of_int (3 * int h) / 2 = (of_int (10 - 3 * int h) / 2 :: rat)"
    by (simp add: field_simps)
  have a2: "jsSub 5 (of_int (3 * int h) / 2) = of_int (10 - 3 * int h) / 2"
    unfolding jsSub_def e2 by (rule fl_half_int) (use b in simp)
  have e3: "of_nat m * (1/2) = (of_int (int m) / 2 :: rat)" by simp
  have a3: "jsMul (of_nat m) (lit (5/10)) = of_int (int m) / 2"
    unfolding jsMul_def l2 e3 by (rule fl_half_int) (use b in simp)
  have e4: "of_int (10 - 3 * int h) / 2 - of_int (int m) / 2 =
            (of_int (10 - 3 * int h - int m) / 2 :: rat)"
    by (simp add: field_simps)
  have a4: "jsSub (of_int (10 - 3 * int h) / 2) (of_int (int m) / 2) =
            of_int (10 - 3 * int h - int m) / 2"
    unfolding jsSub_def e4 by (rule fl_half_int) (use b in simp)
  show ?thesis unfolding a1 a2 a3 a4 by (simp add: field_simps)
qed

text \<open>The internal-validity score computed by the code is the one of the specification.\<close>

lemma internalScore_code:
  assumes "length rs \<le> 4294967296"
  shows "max 0 (min 5
           (jsSub (jsSub 5 (jsMul (of_nat (length (filter (\<lambda>r. severity r = high) rs)))
                                  (lit (15/10))))
                  (jsMul (of_nat (length (filter (\<lambda>r. severity r = medium) rs)))
                         (lit (5/10))))) =
         spec_internalScore rs"
proof -
  let ?h = "length (filter (\<lambda>r. severity r = high) rs)"
  let ?m = "length (filter (\<lambda>r. severity r = medium) rs)"
  have "?h + ?m \<le> length rs"
  proof (induction rs)
    case Nil then show ?case by simp
  next
    case (Cons r rs) then show ?case by (cases "severity r") simp_all
  qed
  then have "?h + ?m \<le> 4294967296" using assms by linarith
  note ex = internalScore_exact [OF this]
  show ?thesis unfolding spec_internalScore_def count_filter ex ..
qed

text \<open>The grade reads the risk list through its severities only.\<close>

lemma calculateOverallGrade_severities:
  assumes "map severity rs = map severity rs'"
  shows "calculateOverallGrade c rs e m t = calculateOverallGrade c rs' e m t"
proof -
  have "length (filter (\<lambda>r. severity r = s) rs) = length (filter (\<lambda>r. severity r = s) rs')"
    for s
    using count_filter [of rs s] count_filter [of rs' s] assms by simp
  then show ?thesis unfolding calculateOverallGrade_def by (simp only:)
qed

lemma length_emitRisk: "length (concat (map (\<lambda>t. emitRisk t st m f) ts)) \<le> length ts"
  by (induction ts) (simp_all add: emitRisk_def split: option.splits)

lemma length_identifyThreats: "length (identifyThreats st m f) \<le> 12"
  using length_emitRisk [of st m f THREAT_DEFINITIONS]
  by (simp add: identifyThreats_def threatLoop_append THREAT_DEFINITIONS_def)

lemma classifyEvidence_fields:
  "causal_strength (classifyEvidence fmt ex text) =
     cscore (assessCausalStrength fmt
               (detectCausalMethod (ex text) (detectStudyType (ex text))) (ex text))"
  "external_validity (classifyEvidence fmt ex text) = score (calculateExternalValidity (ex text))"
  "measurement_quality (classifyEvidence fmt ex text) =
     score (calculateMeasurementQuality (ex text))"
  "transparency_reproducibility (classifyEvidence fmt ex text) =
     tscore (calculateTransparency (ex text))"
  "confidence (classifyEvidence fmt ex text) = calculateConfidence (ex text)"
  "internal_validity_risks (classifyEvidence fmt ex text) =
     identifyThreats (detectStudyType (ex text))
       (detectCausalMethod (ex text) (detectStudyType (ex text))) (ex text)"
  "overall_evidence_grade (classifyEvidence fmt ex text) =
     calculateOverallGrade (causal_strength (classifyEvidence fmt ex text))
       (internal_validity_risks (classifyEvidence fmt ex text))
       (external_validity (classifyEvidence fmt ex text))
       (measurement_quality (classifyEvidence fmt ex text))
       (transparency_reproducibility (classifyEvidence fmt ex text))"
  "causal_strength_justification (classifyEvidence fmt ex text) =
     justification (assessCausalStrength fmt
               (detectCausalMethod (ex text) (detectStudyType (ex text))) (ex text))"
  "sample_size_info (classifyEvidence fmt ex text) = getSampleSizeInfo fmt (ex text)"
  by (simp_all only: classifyEvidence_def Let_def ClassificationResult.select_convs)

lemma rctFeatures_severities:
  "map (\<lambda>r. (risk r, severity r)) (identifyThreats rct randomization rctFeatures) =
   [(''Attrition bias'', medium), (''Spillover/SUTVA violation'', medium),
    (''Measurement error'', medium), (''Limited generalizability'', medium),
    (''Multiple hypothesis testing'', low)]"
  by (simp add: identifyThreats_def THREAT_DEFINITIONS_def threat_defs rctFeatures_def
        noFeatures_def severityOrder_def sampleAbove10000_def)

lemma rctFeatures_fields:
  "causal_strength (classifyEvidence fmt (\<lambda>t. rctFeatures) []) = lit (49/10)"
  "external_validity (classifyEvidence fmt (\<lambda>t. rctFeatures) []) = 3"
  "measurement_quality (classifyEvidence fmt (\<lambda>t. rctFeatures) []) = 5/2"
  "transparency_reproducibility (classifyEvidence fmt (\<lambda>t. rctFeatures) []) = 5/2"
  "confidence (classifyEvidence fmt (\<lambda>t. rctFeatures) []) = lit (65/100)"
  by (simp_all only: classifyEvidence_fields rctFeatures_study rctFeatures_method
        rctFeatures_causal rctFeatures_scores)

lemma rctFeatures_bounds:
  "0 \<le> lit (49/10)" "lit (49/10) \<le> 5" "0 \<le> lit (65/100)" "lit (65/100) \<le> 1"
  by code_simp+

text \<open>
  C4. For every input text, the four component scores of the result lie in \<open>[0,5]\<close>, the
  confidence lies in \<open>[0,1]\<close>, and the grade is one of the five grades.
\<close>

theorem classification_score_bounds:
  "0 \<le> causal_strength (classifyEvidence fmt ex text) \<and>
   causal_strength (classifyEvidence fmt ex text) \<le> 5 \<and>
   0 \<le> external_validity (classifyEvidence fmt ex text) \<and>
   external_validity (classifyEvidence fmt ex text) \<le> 5 \<and>
   0 \<le> measurement_quality (classifyEvidence fmt ex text) \<and>
   measurement_quality (classifyEvidence fmt ex text) \<le> 5 \<and>
   0 \<le> transparency_reproducibility (classifyEvidence fmt ex text) \<and>
   transparency_reproducibility (classifyEvidence fmt ex text) \<le> 5 \<and>
   0 \<le> confidence (classifyEvidence fmt ex text) \<and>
   confidence (classifyEvidence fmt ex text) \<le> 1 \<and>
   overall_evidence_grade (classifyEvidence fmt ex text) \<in>
     {Very_Strong, Strong, Moderate, Weak, Very_Weak}"
proof -
  have g: "overall_evidence_grade (classifyEvidence fmt ex text) \<in>
     {Very_Strong, Strong, Moderate, Weak, Very_Weak}"
    by (cases "overall_evidence_grade (classifyEvidence fmt ex text)") simp_all
  show ?thesis
    using assessCausalStrength_bounds externalValidity_bounds [of "ex text"]
      measurementQuality_bounds [of "ex text"] transparency_bounds [of "ex text"]
      confidence_bounds [of "ex text"] g
    by (simp only: classifyEvidence_fields(1-5) scoreInRange_def tscoreInRange_def simp_thms)
qed

theorem classification_score_bounds_witness:
  "causal_strength (classifyEvidence referenceFormat (\<lambda>t. rctFeatures) []) = lit (49/10) \<and>
   0 \<le> lit (49/10) \<and> lit (49/10) \<le> 5 \<and>
   external_validity (classifyEvidence referenceFormat (\<lambda>t. rctFeatures) []) = 3 \<and>
   measurement_quality (classifyEvidence referenceFormat (\<lambda>t. rctFeatures) []) = 5/2 \<and>
   transparency_reproducibility (classifyEvidence referenceFormat (\<lambda>t. rctFeatures) []) = 5/2 \<and>
   confidence (classifyEvidence referenceFormat (\<lambda>t. rctFeatures) []) = lit (65/100) \<and>
   0 \<le> lit (65/100) \<and> lit (65/100) \<le> 1 \<and>
   overall_evidence_grade (classifyEvidence referenceFormat (\<lambda>t. rctFeatures) []) \<in>
     {Very_Strong, Strong, Moderate, Weak, Very_Weak}"
  using classification_score_bounds [of referenceFormat "\<lambda>t. rctFeatures" "[]"]
  by (simp only: rctFeatures_fields rctFeatures_bounds simp_thms)

section \<open>The overall grade and the weighted sum of the specification\<close>

text \<open>
  The code forms the weighted sum with the numbers of the runtime: each product and
  each sum is rounded to a double, and the thresholds are the doubles nearest to the
  decimals. The specification states the sum and the thresholds as decimal numbers.
\<close>

lemma weightedScore_close:
  assumes c: "isScore c" and e: "isScore e" and m: "isScore m" and t: "isScore t"
    and i: "0 \<le> i" "i \<le> 5"
  shows "\<bar>jsAdd (jsAdd (jsAdd (jsAdd (jsMul c (lit (40/100))) (jsMul i (lit (25/100))))
                            (jsMul e (lit (15/100))))
                     (jsMul m (lit (10/100))))
              (jsMul t (lit (10/100))) -
          spec_weightedSum (oneDecimal c) i (oneDecimal e) (oneDecimal m) (oneDecimal t)\<bar>
         \<le> 39/1125899906842624"
proof -
  have bc: "0 \<le> oneDecimal c" "oneDecimal c \<le> 5" using c by (simp_all add: isScore_def)
  have be: "0 \<le> oneDecimal e" "oneDecimal e \<le> 5" using e by (simp_all add: isScore_def)
  have bm: "0 \<le> oneDecimal m" "oneDecimal m \<le> 5" using m by (simp_all add: isScore_def)
  have bt: "0 \<le> oneDecimal t" "oneDecimal t \<le> 5" using t by (simp_all add: isScore_def)
  have ii: "\<bar>i - i\<bar> \<le> 1/1125899906842624" by simp
  have w1: "\<bar>lit (40/100) - 40/100\<bar> \<le> 1/1125899906842624" by (rule lit_close) simp
  have w2: "\<bar>lit (25/100) - 25/100\<bar> \<le> 1/1125899906842624" by (rule lit_close) simp
  have w3: "\<bar>lit (15/100) - 15/100\<bar> \<le> 1/1125899906842624" by (rule lit_close) simp
  have w4: "\<bar>lit (10/100) - 10/100\<bar> \<le> 1/1125899906842624" by (rule lit_close) simp
  have p1: "\<bar>jsMul c (lit (40/100)) - oneDecimal c * (40/100)\<bar> \<le> 7/1125899906842624"
    by (rule jsMul_close [OF isScore_close [OF c] bc w1]) simp_all
  have p2: "\<bar>jsMul i (lit (25/100)) - i * (25/100)\<bar> \<le> 7/1125899906842624"
    by (rule jsMul_close [OF ii i w2]) simp_all
  have p3: "\<bar>jsMul e (lit (15/100)) - oneDecimal e * (15/100)\<bar> \<le> 7/1125899906842624"
    by (rule jsMul_close [OF isScore_close [OF e] be w3]) simp_all
  have p4: "\<bar>jsMul m (lit (10/100)) - oneDecimal m * (10/100)\<bar> \<le> 7/1125899906842624"
    by (rule jsMul_close [OF isScore_close [OF m] bm w4]) simp_all
  have p5: "\<bar>jsMul t (lit (10/100)) - oneDecimal t * (10/100)\<bar> \<le> 7/1125899906842624"
    by (rule jsMul_close [OF isScore_close [OF t] bt w4]) simp_all
  have s1: "\<bar>jsAdd (jsMul c (lit (40/100))) (jsMul i (lit (25/100))) -
             (oneDecimal c * (40/100) + i * (25/100))\<bar>
            \<le> 7/1125899906842624 + 7/1125899906842624 + 1/1125899906842624"
    by (rule jsAdd_close [OF p1 p2]) (use bc i in linarith, simp)
  have s2: "\<bar>jsAdd (jsAdd (jsMul c (lit (40/100))) (jsMul i (lit (25/100))))
                   (jsMul e (lit (15/100))) -
             (oneDecimal c * (40/100) + i * (25/100) + oneDecimal e * (15/100))\<bar>
            \<le> (7/1125899906842624 + 7/1125899906842624 + 1/1125899906842624) +
               7/1125899906842624 + 1/1125899906842624"
    by (rule jsAdd_close [OF s1 p3]) (use bc i be in linarith, simp)
  have s3: "\<bar>jsAdd (jsAdd (jsAdd (jsMul c (lit (40/100))) (jsMul i (lit (25/100))))
                          (jsMul e (lit (15/100))))
                   (jsMul m (lit (10/100))) -
             (oneDecimal c * (40/100) + i * (25/100) + oneDecimal e * (15/100) +
              oneDecimal m * (10/100))\<bar>
            \<le> ((7/1125899906842624 + 7/1125899906842624 + 1/1125899906842624) +
               7/1125899906842624 + 1/1125899906842624) +
               7/1125899906842624 + 1/1125899906842624"
    by (rule jsAdd_close [OF s2 p4]) (use bc i be bm in linarith, simp)
  have s4: "\<bar>jsAdd (jsAdd (jsAdd (jsAdd (jsMul c (lit (40/100))) (jsMul i (lit (25/100))))
                                 (jsMul e (lit (15/100))))
                          (jsMul m (lit (10/100))))
                   (jsMul t (lit (10/100))) -
             (oneDecimal c * (40/100) + i * (25/100) + oneDecimal e * (15/100) +
              oneDecimal m * (10/100) + oneDecimal t * (10/100))\<bar>
            \<le> (((7/1125899906842624 + 7/1125899906842624 + 1/1125899906842624) +
               7/1125899906842624 + 1/1125899906842624) +
               7/1125899906842624 + 1/1125899906842624) +
               7/1125899906842624 + 1/1125899906842624"
    by (rule jsAdd_close [OF s3 p5]) (use bc i be bm bt in linarith, simp)
  have eq: "spec_weightedSum (oneDecimal c) i (oneDecimal e) (oneDecimal m) (oneDecimal t) =
            oneDecimal c * (40/100) + i * (25/100) + oneDecimal e * (15/100) +
              oneDecimal m * (10/100) + oneDecimal t * (10/100)"
    by (simp add: spec_weightedSum_def)
  show ?thesis unfolding eq using s4 by linarith
qed

lemma spec_internalScore_half:
  "\<exists>k::int. spec_internalScore rs = of_int k / 2 \<and> 0 \<le> spec_internalScore rs \<and>
             spec_internalScore rs \<le> 5"
proof -
  define h where "h = int (count_list (map severity rs) high)"
  define m where "m = int (count_list (map severity rs) medium)"
  define z where "z = 10 - 3 * h - m"
  have inner: "5 - (3/2) * of_nat (count_list (map severity rs) high)
                 - (1/2) * of_nat (count_list (map severity rs) medium) = (of_int z / 2 :: rat)"
    by (simp add: z_def h_def m_def field_simps)
  have "max 0 (min 5 (of_int z / 2 :: rat)) = of_int (max 0 (min 10 z)) / 2"
    by (simp add: max_def min_def)
  then have "spec_internalScore rs = of_int (max 0 (min 10 z)) / 2"
    unfolding spec_internalScore_def inner .
  moreover have "0 \<le> spec_internalScore rs \<and> spec_internalScore rs \<le> 5"
    by (simp add: spec_internalScore_def)
  ultimately show ?thesis by blast
qed

lemma threshold_test:
  fixes N K :: int and W L :: rat
  assumes close: "\<bar>W - of_int N / 200\<bar> \<le> 39/1125899906842624"
    and thr: "\<bar>L - of_int K / 200\<bar> \<le> 1/1125899906842624"
    and ne: "N \<noteq> K"
  shows "(L \<le> W) = (of_int K / 200 \<le> (of_int N / 200 :: rat))"
proof (cases "K < N")
  case True
  then have "K + 1 \<le> N" by simp
  then have "(of_int (K + 1) :: rat) \<le> of_int N" by (simp only: of_int_le_iff)
  then have "(of_int K :: rat) + 1 \<le> of_int N" by simp
  then show ?thesis using close thr by linarith
next
  case False
  then have "N + 1 \<le> K" using ne by simp
  then have "(of_int (N + 1) :: rat) \<le> of_int K" by (simp only: of_int_le_iff)
  then have "(of_int N :: rat) + 1 \<le> of_int K" by simp
  then show ?thesis using close thr by linarith
qed


text \<open>
  Where the weighted sum of the specification is not a threshold, the code computes the
  grade of the specification: the sum is a multiple of 0.005, the sum of doubles differs
  from it by less than \<open>2\<^sup>-\<^sup>4\<^sup>4\<close>, and so does each threshold from its double.
\<close>

lemma calculateOverallGrade_off_threshold:
  assumes c: "isScore c" and e: "isScore e" and m: "isScore m" and t: "isScore t"
    and len: "length rs \<le> 4294967296"
    and off: "spec_weightedSum (oneDecimal c) (spec_internalScore rs) (oneDecimal e)
                (oneDecimal m) (oneDecimal t) \<notin> {42/10, 34/10, 25/10, 15/10}"
  shows "calculateOverallGrade c rs e m t =
         spec_gradeOf (spec_weightedSum (oneDecimal c) (spec_internalScore rs) (oneDecimal e)
                         (oneDecimal m) (oneDecimal t))"
proof -
  define S where "S = spec_weightedSum (oneDecimal c) (spec_internalScore rs) (oneDecimal e)
                        (oneDecimal m) (oneDecimal t)"
  define W where "W = jsAdd (jsAdd (jsAdd (jsAdd (jsMul c (lit (40/100)))
                                                 (jsMul (spec_internalScore rs) (lit (25/100))))
                                          (jsMul e (lit (15/100))))
                                   (jsMul m (lit (10/100))))
                            (jsMul t (lit (10/100)))"
  obtain k :: int where k: "spec_internalScore rs = of_int k / 2"
    and ib: "0 \<le> spec_internalScore rs" "spec_internalScore rs \<le> 5"
    using spec_internalScore_half by blast
  define N where "N = 8 * \<lfloor>c * 10 + 1/2\<rfloor> + 25 * k + 3 * \<lfloor>e * 10 + 1/2\<rfloor> +
                      2 * \<lfloor>m * 10 + 1/2\<rfloor> + 2 * \<lfloor>t * 10 + 1/2\<rfloor>"
  have SN: "S = of_int N / 200"
    by (simp add: S_def spec_weightedSum_def oneDecimal_def k N_def field_simps)
  have close: "\<bar>W - of_int N / 200\<bar> \<le> 39/1125899906842624"
    using weightedScore_close [OF c e m t ib] unfolding W_def S_def [symmetric] SN .
  have T1: "\<bar>lit (42/10) - of_int 840 / 200\<bar> \<le> 1/1125899906842624"
    using lit_close [of "42/10"] by simp
  have T2: "\<bar>lit (34/10) - of_int 680 / 200\<bar> \<le> 1/1125899906842624"
    using lit_close [of "34/10"] by simp
  have T3: "\<bar>lit (25/10) - of_int 500 / 200\<bar> \<le> 1/1125899906842624"
    using lit_close [of "25/10"] by simp
  have T4: "\<bar>lit (15/10) - of_int 300 / 200\<bar> \<le> 1/1125899906842624"
    using lit_close [of "15/10"] by simp
  have ne: "N \<noteq> 840" "N \<noteq> 680" "N \<noteq> 500" "N \<noteq> 300"
    using off unfolding S_def [symmetric] SN by auto
  have t1: "(lit (42/10) \<le> W) = (42/10 \<le> S)"
    using threshold_test [OF close T1 ne(1)] by (simp add: SN)
  have t2: "(lit (34/10) \<le> W) = (34/10 \<le> S)"
    using threshold_test [OF close T2 ne(2)] by (simp add: SN)
  have t3: "(lit (25/10) \<le> W) = (25/10 \<le> S)"
    using threshold_test [OF close T3 ne(3)] by (simp add: SN)
  have t4: "(lit (15/10) \<le> W) = (15/10 \<le> S)"
    using threshold_test [OF close T4 ne(4)] by (simp add: SN)
  have g: "calculateOverallGrade c rs e m t =
             (if lit (42/10) \<le> W then Very_Strong
              else if lit (34/10) \<le> W then Strong
              else if lit (25/10) \<le> W then Moderate
              else if lit (15/10) \<le> W then Weak
              else Very_Weak)"
    unfolding calculateOverallGrade_def Let_def internalScore_code [OF len] W_def ..
  show ?thesis
    unfolding g S_def [symmetric] spec_gradeOf_def by (simp only: t1 t2 t3 t4)
qed

text \<open>
  Where the weighted sum of the specification is a threshold, the grade is the one of the
  specification or the grade just below it.
\<close>

lemma calculateOverallGrade_at_threshold:
  assumes c: "isScore c" and e: "isScore e" and m: "isScore m" and t: "isScore t"
    and len: "length rs \<le> 4294967296"
    and at: "spec_weightedSum (oneDecimal c) (spec_internalScore rs) (oneDecimal e)
                (oneDecimal m) (oneDecimal t) \<in> {42/10, 34/10, 25/10, 15/10}"
  shows "calculateOverallGrade c rs e m t =
           spec_gradeOf (spec_weightedSum (oneDecimal c) (spec_internalScore rs) (oneDecimal e)
                           (oneDecimal m) (oneDecimal t)) \<or>
         calculateOverallGrade c rs e m t =
           spec_gradeOf (spec_weightedSum (oneDecimal c) (spec_internalScore rs) (oneDecimal e)
                           (oneDecimal m) (oneDecimal t) - 1/200)"
proof -
  define S where "S = spec_weightedSum (oneDecimal c) (spec_internalScore rs) (oneDecimal e)
                        (oneDecimal m) (oneDecimal t)"
  define W where "W = jsAdd (jsAdd (jsAdd (jsAdd (jsMul c (lit (40/100)))
                                                 (jsMul (spec_internalScore rs) (lit (25/100))))
                                          (jsMul e (lit (15/100))))
                                   (jsMul m (lit (10/100))))
                            (jsMul t (lit (10/100)))"
  have ib: "0 \<le> spec_internalScore rs" "spec_internalScore rs \<le> 5"
    using spec_internalScore_half [of rs] by blast+
  have close: "\<bar>W - S\<bar> \<le> 39/1125899906842624"
    using weightedScore_close [OF c e m t ib] unfolding W_def S_def .
  have T: "\<bar>lit (42/10) - 42/10\<bar> \<le> 1/1125899906842624"
          "\<bar>lit (34/10) - 34/10\<bar> \<le> 1/1125899906842624"
          "\<bar>lit (25/10) - 25/10\<bar> \<le> 1/1125899906842624"
          "\<bar>lit (15/10) - 15/10\<bar> \<le> 1/1125899906842624"
    by (rule lit_close, simp)+
  have g: "calculateOverallGrade c rs e m t =
             (if lit (42/10) \<le> W then Very_Strong
              else if lit (34/10) \<le> W then Strong
              else if lit (25/10) \<le> W then Moderate
              else if lit (15/10) \<le> W then Weak
              else Very_Weak)"
    unfolding calculateOverallGrade_def Let_def internalScore_code [OF len] W_def ..
  consider "S = 42/10" | "S = 34/10" | "S = 25/10" | "S = 15/10"
    using at unfolding S_def [symmetric] by auto
  then show ?thesis
  proof cases
    case 1
    have "lit (34/10) \<le> W" using close T unfolding 1 by linarith
    then show ?thesis unfolding g S_def [symmetric] spec_gradeOf_def 1 by simp
  next
    case 2
    have "\<not> lit (42/10) \<le> W" "lit (25/10) \<le> W" using close T unfolding 2 by linarith+
    then show ?thesis unfolding g S_def [symmetric] spec_gradeOf_def 2 by simp
  next
    case 3
    have "\<not> lit (42/10) \<le> W" "\<not> lit (34/10) \<le> W" "lit (15/10) \<le> W"
      using close T unfolding 3 by linarith+
    then show ?thesis unfolding g S_def [symmetric] spec_gradeOf_def 3 by simp
  next
    case 4
    have "\<not> lit (42/10) \<le> W" "\<not> lit (34/10) \<le> W" "\<not> lit (25/10) \<le> W"
      using close T unfolding 4 by linarith+
    then show ?thesis unfolding g S_def [symmetric] spec_gradeOf_def 4 by simp
  qed
qed

text \<open>The same for the result of the pipeline, whose four scores are scores in that sense.\<close>

lemma classifyEvidence_isScore:
  "isScore (causal_strength (classifyEvidence fmt ex text))"
  "isScore (external_validity (classifyEvidence fmt ex text))"
  "isScore (measurement_quality (classifyEvidence fmt ex text))"
  "isScore (transparency_reproducibility (classifyEvidence fmt ex text))"
  by (simp_all only: classifyEvidence_fields causal_isScore externalValidity_isScore
        measurementQuality_isScore transparency_isScore)

lemma overall_grade_off_threshold:
  assumes "spec_weightedSum (oneDecimal (causal_strength (classifyEvidence fmt ex text)))
             (spec_internalScore (internal_validity_risks (classifyEvidence fmt ex text)))
             (oneDecimal (external_validity (classifyEvidence fmt ex text)))
             (oneDecimal (measurement_quality (classifyEvidence fmt ex text)))
             (oneDecimal (transparency_reproducibility (classifyEvidence fmt ex text)))
           \<notin> {42/10, 34/10, 25/10, 15/10}"
  shows "overall_evidence_grade (classifyEvidence fmt ex text) =
         spec_gradeOf
           (spec_weightedSum (oneDecimal (causal_strength (classifyEvidence fmt ex text)))
              (spec_internalScore (internal_validity_risks (classifyEvidence fmt ex text)))
              (oneDecimal (external_validity (classifyEvidence fmt ex text)))
              (oneDecimal (measurement_quality (classifyEvidence fmt ex text)))
              (oneDecimal (transparency_reproducibility (classifyEvidence fmt ex text))))"
proof -
  have "length (internal_validity_risks (classifyEvidence fmt ex text)) \<le> 12"
    unfolding classifyEvidence_fields(6) by (rule length_identifyThreats)
  then have len: "length (internal_validity_risks (classifyEvidence fmt ex text)) \<le> 4294967296"
    by linarith
  show ?thesis
    using assms unfolding classifyEvidence_fields(7)
    by (rule calculateOverallGrade_off_threshold [OF classifyEvidence_isScore len])
qed

lemma overall_grade_at_threshold:
  assumes "spec_weightedSum (oneDecimal (causal_strength (classifyEvidence fmt ex text)))
             (spec_internalScore (internal_validity_risks (classifyEvidence fmt ex text)))
             (oneDecimal (external_validity (classifyEvidence fmt ex text)))
             (oneDecimal (measurement_quality (classifyEvidence fmt ex text)))
             (oneDecimal (transparency_reproducibility (classifyEvidence fmt ex text)))
           \<in> {42/10, 34/10, 25/10, 15/10}"
  shows "overall_evidence_grade (classifyEvidence fmt ex text) =
         spec_gradeOf
           (spec_weightedSum (oneDecimal (causal_strength (classifyEvidence fmt ex text)))
              (spec_internalScore (internal_validity_risks (classifyEvidence fmt ex text)))
              (oneDecimal (external_validity (classifyEvidence fmt ex text)))
              (oneDecimal (measurement_quality (classifyEvidence fmt ex text)))
              (oneDecimal (transparency_reproducibility (classifyEvidence fmt ex text)))) \<or>
         overall_evidence_grade (classifyEvidence fmt ex text) =
         spec_gradeOf
           (spec_weightedSum (oneDecimal (causal_strength (classifyEvidence fmt ex text)))
              (spec_internalScore (internal_validity_risks (classifyEvidence fmt ex text)))
              (oneDecimal (external_validity (classifyEvidence fmt ex text)))
              (oneDecimal (measurement_quality (classifyEvidence fmt ex text)))
              (oneDecimal (transparency_reproducibility (classifyEvidence fmt ex text)))
            - 1/200)"
proof -
  have "length (internal_validity_risks (classifyEvidence fmt ex text)) \<le> 12"
    unfolding classifyEvidence_fields(6) by (rule length_identifyThreats)
  then have len: "length (internal_validity_risks (classifyEvidence fmt ex text)) \<le> 4294967296"
    by linarith
  show ?thesis
    using assms unfolding classifyEvidence_fields(7)
    by (rule calculateOverallGrade_at_threshold [OF classifyEvidence_isScore len])
qed

text \<open>
  An input away from every threshold, the randomized trial of the reference inputs: the
  scores are 4.9, 3, 2.5 and 2.5, the internal score is 3, the weighted sum is 3.66 and the
  grade is Strong.
\<close>

lemma rctFeatures_internal:
  "spec_internalScore (internal_validity_risks (classifyEvidence fmt (\<lambda>t. rctFeatures) [])) = 3"
proof -
  have "map severity (identifyThreats rct randomization rctFeatures) =
        [medium, medium, medium, medium, low]"
    using arg_cong [OF rctFeatures_severities, of "map snd"] by (simp add: comp_def)
  then show ?thesis
    unfolding classifyEvidence_fields(6) rctFeatures_study rctFeatures_method
    by (simp add: spec_internalScore_def)
qed

lemma rctFeatures_decimals:
  "oneDecimal (lit (49/10)) = 49/10" "oneDecimal 3 = 3" "oneDecimal (5/2) = 5/2"
  "spec_weightedSum (49/10) 3 3 (5/2) (5/2) = 366/100"
  "spec_gradeOf (366/100) = Strong"
  by code_simp+

lemma rctFeatures_grade:
  "overall_evidence_grade (classifyEvidence fmt (\<lambda>t. rctFeatures) []) = Strong"
  using overall_grade_off_threshold [of fmt "\<lambda>t. rctFeatures" "[]"]
  unfolding rctFeatures_fields rctFeatures_internal rctFeatures_decimals by simp

section \<open>The overall grade where the weighted sum meets a threshold\<close>

text \<open>
  Where the weighted sum of the specification is a threshold itself, the sum of doubles
  can lie one unit in the last place below the double nearest to the threshold, and the
  grade is then the one below. The feature record \<open>didFeatures\<close> is such an input.
\<close>

lemma didFeatures_study: "detectStudyType didFeatures = quasi_experimental_did"
  by (simp add: detectStudyType_unfold didFeatures_def noFeatures_def)

lemma didFeatures_method:
  "detectCausalMethod didFeatures quasi_experimental_did = difference_in_differences"
  by (simp add: detectCausalMethod_def methodMap_def)

lemma didFeatures_causal:
  "cscore (assessCausalStrength fmt difference_in_differences didFeatures) = 4"
  unfolding assessCausalStrength_score by code_simp

lemma didFeatures_scores:
  "score (calculateExternalValidity didFeatures) = 3"
  "score (calculateMeasurementQuality didFeatures) = 3"
  "tscore (calculateTransparency didFeatures) = 3"
  by code_simp+

lemma didFeatures_severities:
  "map (\<lambda>r. (risk r, severity r))
     (identifyThreats quasi_experimental_did difference_in_differences didFeatures) =
   [(''Selection bias'', high), (''Spillover/SUTVA violation'', medium),
    (''Parallel trends violation'', low), (''Measurement error'', low),
    (''Multiple hypothesis testing'', low), (''Limited generalizability'', low)]"
  by (simp add: identifyThreats_def THREAT_DEFINITIONS_def threat_defs didFeatures_def
        noFeatures_def severityOrder_def sampleAbove10000_def)

lemma didFeatures_risks:
  "map severity
     (identifyThreats quasi_experimental_did difference_in_differences didFeatures) =
   [high, medium, low, low, low, low]"
  using arg_cong [OF didFeatures_severities, of "map snd"] by (simp add: comp_def)

lemma didFeatures_fields:
  "causal_strength (classifyEvidence fmt (\<lambda>t. didFeatures) text) = 4"
  "external_validity (classifyEvidence fmt (\<lambda>t. didFeatures) text) = 3"
  "measurement_quality (classifyEvidence fmt (\<lambda>t. didFeatures) text) = 3"
  "transparency_reproducibility (classifyEvidence fmt (\<lambda>t. didFeatures) text) = 3"
  "map severity (internal_validity_risks (classifyEvidence fmt (\<lambda>t. didFeatures) text)) =
     [high, medium, low, low, low, low]"
  by (simp_all only: classifyEvidence_fields didFeatures_study didFeatures_method
        didFeatures_causal didFeatures_scores didFeatures_risks)

text \<open>
  The scores 4, 3, 3, 3, 3: in exact arithmetic the weighted sum is 3.4 and the grade
  Strong; the sum of doubles is below the double nearest to 3.4, and the code's grade is
  Moderate.
\<close>

lemma weightedSum_at_threshold:
  "spec_internalScore (risksOf [high, medium, low, low, low, low]) = 3"
  "spec_weightedSum 4 3 3 3 3 = 34/10"
  "spec_gradeOf (34/10) = Strong"
  "jsAdd (jsAdd (jsAdd (jsAdd (jsMul 4 (lit (40/100))) (jsMul 3 (lit (25/100))))
                       (jsMul 3 (lit (15/100))))
                (jsMul 3 (lit (10/100))))
         (jsMul 3 (lit (10/100))) < lit (34/10)"
  "calculateOverallGrade 4 (risksOf [high, medium, low, low, low, low]) 3 3 3 = Moderate"
  by code_simp+

lemma didFeatures_grade:
  "overall_evidence_grade (classifyEvidence fmt (\<lambda>t. didFeatures) text) = Moderate"
proof -
  have "map severity (internal_validity_risks (classifyEvidence fmt (\<lambda>t. didFeatures) text)) =
        map severity (risksOf [high, medium, low, low, low, low])"
    unfolding didFeatures_fields(5) by (simp add: risksOf_def)
  from calculateOverallGrade_severities [OF this, of 4 3 3 3] show ?thesis
    unfolding classifyEvidence_fields(7) didFeatures_fields(1-4)
    by (simp only: weightedSum_at_threshold(5))
qed

text \<open>
  C1. The overall grade is specified as the grade of the weighted sum
  0.40 * causal strength + 0.25 * internal score + 0.15 * external validity + 0.10 *
  measurement quality + 0.10 * transparency, with the internal score 5 - 1.5 * (number of
  high risks) - 0.5 * (number of medium risks) clamped to \<open>[0,5]\<close>, and Strong from 3.4.
  On the text \<open>didText\<close> the result has the scores 4, 3, 3 and 3, one high and one medium
  risk, hence the internal score 3 and the weighted sum 3.4, which the specification
  grades Strong; the grade of the result is Moderate.
\<close>

theorem overall_grade_misses_threshold:
  "causal_strength (classifyEvidence referenceFormat (\<lambda>t. didFeatures) didText) = 4 \<and>
   map severity
     (internal_validity_risks (classifyEvidence referenceFormat (\<lambda>t. didFeatures) didText)) =
     [high, medium, low, low, low, low] \<and>
   spec_internalScore
     (internal_validity_risks (classifyEvidence referenceFormat (\<lambda>t. didFeatures) didText)) = 3 \<and>
   external_validity (classifyEvidence referenceFormat (\<lambda>t. didFeatures) didText) = 3 \<and>
   measurement_quality (classifyEvidence referenceFormat (\<lambda>t. didFeatures) didText) = 3 \<and>
   transparency_reproducibility
     (classifyEvidence referenceFormat (\<lambda>t. didFeatures) didText) = 3 \<and>
   spec_weightedSum 4 3 3 3 3 = 34/10 \<and>
   spec_gradeOf (spec_weightedSum 4 3 3 3 3) = Strong \<and>
   overall_evidence_grade (classifyEvidence referenceFormat (\<lambda>t. didFeatures) didText) =
     Moderate"
proof -
  have i: "spec_internalScore
     (internal_validity_risks (classifyEvidence referenceFormat (\<lambda>t. didFeatures) didText)) = 3"
    unfolding spec_internalScore_def didFeatures_fields(5) by simp
  show ?thesis
    by (simp only: didFeatures_fields didFeatures_grade i weightedSum_at_threshold simp_thms)
qed

section \<open>Properties of the follow-up questions\<close>

lemma push_if: "(if c then qs @ x else qs) = qs @ (if c then x else [])"
  by simp

lemma push_if2: "(if c then (qs @ x) @ y else qs) = qs @ (if c then x @ y else [])"
  by simp

text \<open>
  C8. For every study type, method, feature record and risk list,
  \<open>generateFollowUpQuestions\<close> returns at most five questions, and they are the first
  five (or all, when fewer) of the checklist in its fixed order: missing sample size;
  difference-in-differences without parallel-trends evidence; instrumental variables
  (always the two questions on the first-stage F-statistic and the exclusion
  restriction); regression discontinuity without sensitivity analysis (manipulation
  tests, bandwidth sensitivity); randomization without attrition discussion; missing
  pre-registration; missing robustness checks; one combined question naming all
  high-severity risks when there is any; missing external-validity discussion.
\<close>

theorem generateFollowUpQuestions_checklist:
  "length (generateFollowUpQuestions st m f rs) \<le> 5 \<and>
   generateFollowUpQuestions st m f rs = take 5 (spec_followUpChecklist m f rs)"
proof -
  have "generateFollowUpQuestions st m f rs = take 5 (spec_followUpChecklist m f rs)"
    unfolding generateFollowUpQuestions_def spec_followUpChecklist_def Let_def
    apply (simp only: push_if2 push_if)
    apply (simp only: append_assoc append_Nil concat.simps append_Nil2 length_greater_0_conv
          append_Cons cong: if_cong)
    done
  then show ?thesis by simp
qed

lemma followUp_values:
  "spec_followUpChecklist instrumental_variables noFeatures twoHighRisks =
     [''What is the sample size?'',
      ''What is the first-stage F-statistic for instrument strength?'',
      ''What is the theoretical argument for the exclusion restriction?'',
      ''Was the analysis pre-registered?'',
      ''Were robustness checks or alternative specifications explored?'',
      ''How does the study address: selection bias, unobserved confounding?'',
      ''What population/context do these results generalize to?'']"
  "spec_followUpChecklist randomization
       (noFeatures\<lparr>sampleSizeNumeric := Some 1200, hasPreRegistration := True,
                   hasRobustnessChecks := True, hasAttritionDiscussion := True\<rparr>) twoHighRisks =
     [''How does the study address: selection bias, unobserved confounding?'',
      ''What population/context do these results generalize to?'']"
  by code_simp+

theorem generateFollowUpQuestions_checklist_witness:
  "generateFollowUpQuestions quasi_experimental_iv instrumental_variables noFeatures twoHighRisks =
     [''What is the sample size?'',
      ''What is the first-stage F-statistic for instrument strength?'',
      ''What is the theoretical argument for the exclusion restriction?'',
      ''Was the analysis pre-registered?'',
      ''Were robustness checks or alternative specifications explored?''] \<and>
   generateFollowUpQuestions rct randomization
       (noFeatures\<lparr>sampleSizeNumeric := Some 1200, hasPreRegistration := True,
                   hasRobustnessChecks := True, hasAttritionDiscussion := True\<rparr>) twoHighRisks =
     [''How does the study address: selection bias, unobserved confounding?'',
      ''What population/context do these results generalize to?'']"
  using generateFollowUpQuestions_checklist
          [of quasi_experimental_iv instrumental_variables noFeatures twoHighRisks]
        generateFollowUpQuestions_checklist
          [of rct randomization
              "noFeatures\<lparr>sampleSizeNumeric := Some 1200, hasPreRegistration := True,
                   hasRobustnessChecks := True, hasAttritionDiscussion := True\<rparr>" twoHighRisks]
  by (simp only: followUp_values) simp

section \<open>The matched keywords only reach the confidence\<close>

lemma keywords_fields:
  "hasRandomization (f\<lparr>matchedKeywords := ks\<rparr>) = hasRandomization f"
  "hasPlacebo (f\<lparr>matchedKeywords := ks\<rparr>) = hasPlacebo f"
  "hasControlGroup (f\<lparr>matchedKeywords := ks\<rparr>) = hasControlGroup f"
  "hasBlinding (f\<lparr>matchedKeywords := ks\<rparr>) = hasBlinding f"
  "hasBaseline (f\<lparr>matchedKeywords := ks\<rparr>) = hasBaseline f"
  "hasClusterDesign (f\<lparr>matchedKeywords := ks\<rparr>) = hasClusterDesign f"
  "hasDifferenceInDifferences (f\<lparr>matchedKeywords := ks\<rparr>) = hasDifferenceInDifferences f"
  "hasParallelTrends (f\<lparr>matchedKeywords := ks\<rparr>) = hasParallelTrends f"
  "hasFixedEffects (f\<lparr>matchedKeywords := ks\<rparr>) = hasFixedEffects f"
  "hasInstrumentalVariable (f\<lparr>matchedKeywords := ks\<rparr>) = hasInstrumentalVariable f"
  "hasRegressionDiscontinuity (f\<lparr>matchedKeywords := ks\<rparr>) = hasRegressionDiscontinuity f"
  "hasMatchingPSM (f\<lparr>matchedKeywords := ks\<rparr>) = hasMatchingPSM f"
  "hasSyntheticControl (f\<lparr>matchedKeywords := ks\<rparr>) = hasSyntheticControl f"
  "hasEventStudy (f\<lparr>matchedKeywords := ks\<rparr>) = hasEventStudy f"
  "hasPowerCalculation (f\<lparr>matchedKeywords := ks\<rparr>) = hasPowerCalculation f"
  "hasPreRegistration (f\<lparr>matchedKeywords := ks\<rparr>) = hasPreRegistration f"
  "hasRobustnessChecks (f\<lparr>matchedKeywords := ks\<rparr>) = hasRobustnessChecks f"
  "hasBalanceTests (f\<lparr>matchedKeywords := ks\<rparr>) = hasBalanceTests f"
  "hasSensitivityAnalysis (f\<lparr>matchedKeywords := ks\<rparr>) = hasSensitivityAnalysis f"
  "hasCONSORT (f\<lparr>matchedKeywords := ks\<rparr>) = hasCONSORT f"
  "hasPRISMA (f\<lparr>matchedKeywords := ks\<rparr>) = hasPRISMA f"
  "hasDataAvailability (f\<lparr>matchedKeywords := ks\<rparr>) = hasDataAvailability f"
  "hasCodeAvailability (f\<lparr>matchedKeywords := ks\<rparr>) = hasCodeAvailability f"
  "sampleSizeText (f\<lparr>matchedKeywords := ks\<rparr>) = sampleSizeText f"
  "sampleSizeNumeric (f\<lparr>matchedKeywords := ks\<rparr>) = sampleSizeNumeric f"
  "hasAttritionDiscussion (f\<lparr>matchedKeywords := ks\<rparr>) = hasAttritionDiscussion f"
  "hasSpilloverDiscussion (f\<lparr>matchedKeywords := ks\<rparr>) = hasSpilloverDiscussion f"
  "hasSelectionBiasDiscussion (f\<lparr>matchedKeywords := ks\<rparr>) = hasSelectionBiasDiscussion f"
  "hasExternalValidityDiscussion (f\<lparr>matchedKeywords := ks\<rparr>) = hasExternalValidityDiscussion f"
  "isSystematicReview (f\<lparr>matchedKeywords := ks\<rparr>) = isSystematicReview f"
  "isMetaAnalysis (f\<lparr>matchedKeywords := ks\<rparr>) = isMetaAnalysis f"
  "studyCountText (f\<lparr>matchedKeywords := ks\<rparr>) = studyCountText f"
  "hasValidatedInstruments (f\<lparr>matchedKeywords := ks\<rparr>) = hasValidatedInstruments f"
  "hasAdminData (f\<lparr>matchedKeywords := ks\<rparr>) = hasAdminData f"
  "hasSelfReport (f\<lparr>matchedKeywords := ks\<rparr>) = hasSelfReport f"
  "hasObjectiveMeasures (f\<lparr>matchedKeywords := ks\<rparr>) = hasObjectiveMeasures f"
  "matchedKeywords (f\<lparr>matchedKeywords := ks\<rparr>) = ks"
  by simp_all

lemmas rubric_defs = rubric_randomization_def rubric_difference_in_differences_def
  rubric_regression_discontinuity_def rubric_instrumental_variables_def
  rubric_propensity_score_matching_def rubric_synthetic_control_def rubric_event_study_def
  rubric_fixed_effects_def rubric_selection_on_observables_def rubric_meta_analytic_def
  rubric_none_def rubric_unknown_def

lemma rubric_features_keywords:
  "mo \<in> set (strengthModifiers (METHOD_RUBRICS m)) \<Longrightarrow>
   feature mo (f\<lparr>matchedKeywords := ks\<rparr>) = feature mo f"
  by (cases m) (auto simp: METHOD_RUBRICS_def rubric_defs sampleBelow_def sampleAbove_def)

text \<open>Score and justification: the loop reads the record through the modifiers only.\<close>

lemma assessCausalStrength_keywords:
  "assessCausalStrength fmt m (f\<lparr>matchedKeywords := ks\<rparr>) = assessCausalStrength fmt m f"
proof -
  have "modifierLoop fmt (strengthModifiers (METHOD_RUBRICS m)) (f\<lparr>matchedKeywords := ks\<rparr>)
          (baseStrength (METHOD_RUBRICS m), []) =
        modifierLoop fmt (strengthModifiers (METHOD_RUBRICS m)) f
          (baseStrength (METHOD_RUBRICS m), [])"
    by (rule modifierLoop_cong) (rule rubric_features_keywords)
  then show ?thesis
    unfolding assessCausalStrength_def Let_def by (simp only:)
qed

lemma getSampleSizeInfo_keywords:
  "getSampleSizeInfo fmt (f\<lparr>matchedKeywords := ks\<rparr>) = getSampleSizeInfo fmt f"
  by (simp only: getSampleSizeInfo_def keywords_fields)

lemma emitRisk_keywords:
  "t \<in> set THREAT_DEFINITIONS \<Longrightarrow>
   emitRisk t st m (f\<lparr>matchedKeywords := ks\<rparr>) = emitRisk t st m f"
  by (auto simp: THREAT_DEFINITIONS_def emitRisk_def threat_defs sampleAbove10000_def)

lemma identifyThreats_keywords:
  "identifyThreats st m (f\<lparr>matchedKeywords := ks\<rparr>) = identifyThreats st m f"
proof -
  have eq: "map (\<lambda>t. emitRisk t st m (f\<lparr>matchedKeywords := ks\<rparr>)) THREAT_DEFINITIONS =
        map (\<lambda>t. emitRisk t st m f) THREAT_DEFINITIONS"
    by (rule map_cong [OF refl]) (rule emitRisk_keywords)
  show ?thesis unfolding identifyThreats_def threatLoop_append eq ..
qed

lemma detection_keywords:
  "detectStudyType (f\<lparr>matchedKeywords := ks\<rparr>) = detectStudyType f"
  "detectCausalMethod (f\<lparr>matchedKeywords := ks\<rparr>) st = detectCausalMethod f st"
  "getCausalMethodIndicators (f\<lparr>matchedKeywords := ks\<rparr>) = getCausalMethodIndicators f"
  by (simp_all only: detectStudyType_unfold detectCausalMethod_def getCausalMethodIndicators_def
        keywords_fields)

lemma scores_keywords:
  "calculateExternalValidity (f\<lparr>matchedKeywords := ks\<rparr>) = calculateExternalValidity f"
  "calculateMeasurementQuality (f\<lparr>matchedKeywords := ks\<rparr>) = calculateMeasurementQuality f"
  "calculateTransparency (f\<lparr>matchedKeywords := ks\<rparr>) = calculateTransparency f"
  "generateFollowUpQuestions st m (f\<lparr>matchedKeywords := ks\<rparr>) rs =
     generateFollowUpQuestions st m f rs"
  by (simp_all only: calculateExternalValidity_def calculateMeasurementQuality_def
        calculateTransparency_def generateFollowUpQuestions_def keywords_fields)

lemma confidence_keywords:
  "length ks = length ks' \<Longrightarrow>
   calculateConfidence (f\<lparr>matchedKeywords := ks\<rparr>) =
   calculateConfidence (f\<lparr>matchedKeywords := ks'\<rparr>)"
  by (simp only: calculateConfidence_def keywords_fields)

lemma classifyEvidence_keywords:
  "classifyEvidence fmt (\<lambda>t. (ex t)\<lparr>matchedKeywords := ks\<rparr>) text =
     (classifyEvidence fmt ex text)
        \<lparr>confidence := calculateConfidence ((ex text)\<lparr>matchedKeywords := ks\<rparr>)\<rparr>"
  unfolding classifyEvidence_def Let_def
  by (simp only: detection_keywords assessCausalStrength_keywords identifyThreats_keywords
        scores_keywords getSampleSizeInfo_keywords ClassificationResult.update_convs)

text \<open>
  C9. Replacing the list \<open>matchedKeywords\<close> of a feature record by any other list
  changes none of \<open>detectStudyType\<close>, \<open>detectCausalMethod\<close>, the indicators,
  \<open>assessCausalStrength\<close> (score and justification), \<open>identifyThreats\<close>, the
  external-validity, measurement-quality and transparency results, the follow-up
  questions and the sample-size text, whatever the number formatting; the confidence is
  the same for two keyword lists of the same length; and the whole result of the
  pipeline, with all its eighteen fields, changes in its confidence field only.
\<close>

theorem matchedKeywords_noninterference:
  "detectStudyType (f\<lparr>matchedKeywords := ks\<rparr>) = detectStudyType f \<and>
   detectCausalMethod (f\<lparr>matchedKeywords := ks\<rparr>) st = detectCausalMethod f st \<and>
   getCausalMethodIndicators (f\<lparr>matchedKeywords := ks\<rparr>) = getCausalMethodIndicators f \<and>
   assessCausalStrength fmt m (f\<lparr>matchedKeywords := ks\<rparr>) = assessCausalStrength fmt m f \<and>
   identifyThreats st m (f\<lparr>matchedKeywords := ks\<rparr>) = identifyThreats st m f \<and>
   calculateExternalValidity (f\<lparr>matchedKeywords := ks\<rparr>) = calculateExternalValidity f \<and>
   calculateMeasurementQuality (f\<lparr>matchedKeywords := ks\<rparr>) = calculateMeasurementQuality f \<and>
   calculateTransparency (f\<lparr>matchedKeywords := ks\<rparr>) = calculateTransparency f \<and>
   generateFollowUpQuestions st m (f\<lparr>matchedKeywords := ks\<rparr>) rs =
     generateFollowUpQuestions st m f rs \<and>
   getSampleSizeInfo fmt (f\<lparr>matchedKeywords := ks\<rparr>) = getSampleSizeInfo fmt f \<and>
   (length ks = length ks2 \<longrightarrow>
      calculateConfidence (f\<lparr>matchedKeywords := ks\<rparr>) =
      calculateConfidence (f\<lparr>matchedKeywords := ks2\<rparr>)) \<and>
   classifyEvidence fmt (\<lambda>t. (ex t)\<lparr>matchedKeywords := ks\<rparr>) text =
     (classifyEvidence fmt ex text)
        \<lparr>confidence := calculateConfidence ((ex text)\<lparr>matchedKeywords := ks\<rparr>)\<rparr>"
proof -
  have c: "length ks = length ks2 \<longrightarrow>
      calculateConfidence (f\<lparr>matchedKeywords := ks\<rparr>) =
      calculateConfidence (f\<lparr>matchedKeywords := ks2\<rparr>)"
    by (rule impI) (rule confidence_keywords)
  show ?thesis
    by (intro conjI c)
       (simp_all only: detection_keywords assessCausalStrength_keywords
          identifyThreats_keywords scores_keywords getSampleSizeInfo_keywords
          classifyEvidence_keywords)
qed

lemma confidence_values:
  "calculateConfidence (noFeatures\<lparr>matchedKeywords := [''randomization'']\<rparr>) = lit (33/100)"
  "calculateConfidence noFeatures = lit (30/100)"
  "lit (30/100) < lit (33/100)"
  by code_simp+

lemma rctFeatures_texts:
  "justification (assessCausalStrength referenceFormat randomization rctFeatures) =
     ''Base strength for randomization: 4.5/5. Modifiers applied: +0.2: Balance tests reported; +0.2: Pre-registered. Strong evidence requires: randomization, control group.''"
  "getSampleSizeInfo referenceFormat rctFeatures = ''N = 1,200''"
  by code_simp+

theorem matchedKeywords_noninterference_witness:
  "length [''randomization''] = length [''placebo''] \<and>
   calculateConfidence (noFeatures\<lparr>matchedKeywords := [''randomization'']\<rparr>) =
   calculateConfidence (noFeatures\<lparr>matchedKeywords := [''placebo'']\<rparr>) \<and>
   calculateConfidence (noFeatures\<lparr>matchedKeywords := [''placebo'']\<rparr>) = lit (33/100) \<and>
   calculateConfidence noFeatures = lit (30/100) \<and>
   detectStudyType (noFeatures\<lparr>matchedKeywords := [''randomization'']\<rparr>) =
   detectStudyType noFeatures \<and>
   identifyThreats unknown unknown_method (noFeatures\<lparr>matchedKeywords := [''randomization'']\<rparr>) =
   identifyThreats unknown unknown_method noFeatures \<and>
   justification (assessCausalStrength referenceFormat randomization
                    (rctFeatures\<lparr>matchedKeywords := [''randomization'', ''placebo'']\<rparr>)) =
     ''Base strength for randomization: 4.5/5. Modifiers applied: +0.2: Balance tests reported; +0.2: Pre-registered. Strong evidence requires: randomization, control group.'' \<and>
   getSampleSizeInfo referenceFormat
     (rctFeatures\<lparr>matchedKeywords := [''randomization'', ''placebo'']\<rparr>) = ''N = 1,200''"
proof -
  have len: "length [''randomization''] = length [''placebo'']" by simp
  note a = matchedKeywords_noninterference
             [of "[''randomization'']" noFeatures unknown _ unknown_method _ "[''placebo'']"]
  note b = matchedKeywords_noninterference
             [of "[''randomization'', ''placebo'']" rctFeatures _ referenceFormat randomization]
  have 1: "calculateConfidence (noFeatures\<lparr>matchedKeywords := [''randomization'']\<rparr>) =
           calculateConfidence (noFeatures\<lparr>matchedKeywords := [''placebo'']\<rparr>)"
    using a len by blast
  have 2: "detectStudyType (noFeatures\<lparr>matchedKeywords := [''randomization'']\<rparr>) =
           detectStudyType noFeatures"
    using a by blast
  have 3: "identifyThreats unknown unknown_method
             (noFeatures\<lparr>matchedKeywords := [''randomization'']\<rparr>) =
           identifyThreats unknown unknown_method noFeatures"
    using a by blast
  have 4: "assessCausalStrength referenceFormat randomization
             (rctFeatures\<lparr>matchedKeywords := [''randomization'', ''placebo'']\<rparr>) =
           assessCausalStrength referenceFormat randomization rctFeatures"
    using b by blast
  have 5: "getSampleSizeInfo referenceFormat
             (rctFeatures\<lparr>matchedKeywords := [''randomization'', ''placebo'']\<rparr>) =
           getSampleSizeInfo referenceFormat rctFeatures"
    using b by blast
  show ?thesis
    unfolding 4 5 rctFeatures_texts 2 3
    using 1 len confidence_values(1,2) by simp
qed

end
